theory Spec2Isabelle
  imports Main "HOL-Library.AList"
begin

section \<open>Exceptions\<close>

text \<open>
  Every exception the modelled code can raise is a value. A function that can raise
  returns \<open>py_error + 'a\<close>, with \<open>Inl\<close> for the exception. \<open>AttributeError\<close> carries
  its message, \<open>InvalidHttpRequest\<close> its message and its status code.
\<close>

datatype py_error =
    ValueError
  | KeyError
  | MultiValueDictKeyError
  | AttributeError string
  | InvalidHttpRequest string "int option"
  | NoHostFoundException
  | RawPostDataException
  | RequestDataTooBig
  | UnreadablePostError
  | TooManyFieldsSent
  | UnicodeError
  | UnboundLocalError
  | TypeError
  | IOError

section \<open>utils/datastructures.py: MultiValueDict\<close>

text \<open>
  \<open>MultiValueDict\<close> subclasses \<open>dict\<close>: a dictionary from keys to lists of values. The
  dictionary is an association list in insertion order; \<open>AList.update\<close> overwrites a key
  in place and appends a new key at the end, \<open>AList.delete\<close> removes a key.
\<close>

type_synonym ('k, 'v) MultiValueDict = "('k \<times> 'v list) list"

text \<open>\<open>__getitem__\<close> returns the last value of the list, or the empty list \<open>[]\<close> itself.\<close>

datatype 'v item = Item 'v | EmptyList

text \<open>The \<open>potential_list\<close> argument of \<open>setlist\<close>: \<open>None\<close>, a list, or a single value.\<close>

datatype 'v potential_list = PNone | PList "'v list" | PSingle 'v

definition MultiValueDict_init :: "('k \<times> 'v list) list \<Rightarrow> ('k, 'v) MultiValueDict" where
  "MultiValueDict_init key_to_list_mapping = key_to_list_mapping"

definition MultiValueDict_contains :: "('k, 'v) MultiValueDict \<Rightarrow> 'k \<Rightarrow> bool" where
  "MultiValueDict_contains d key = (map_of d key \<noteq> None)"

definition MultiValueDict_getitem :: "('k, 'v) MultiValueDict \<Rightarrow> 'k \<Rightarrow> py_error + 'v item" where
  "MultiValueDict_getitem d key =
     (case map_of d key of
        None \<Rightarrow> Inl MultiValueDictKeyError
      | Some vlist \<Rightarrow> (if vlist = [] then Inr EmptyList else Inr (Item (last vlist))))"

definition MultiValueDict_setitem :: "('k, 'v) MultiValueDict \<Rightarrow> 'k \<Rightarrow> 'v \<Rightarrow> ('k, 'v) MultiValueDict" where
  "MultiValueDict_setitem d key value = AList.update key [value] d"

text \<open>\<open>dict.__delitem__\<close>, inherited unchanged.\<close>

definition MultiValueDict_delitem :: "('k, 'v) MultiValueDict \<Rightarrow> 'k \<Rightarrow> py_error + ('k, 'v) MultiValueDict" where
  "MultiValueDict_delitem d key =
     (if MultiValueDict_contains d key then Inr (AList.delete key d) else Inl KeyError)"

text \<open>\<open>get\<close>: the default is Python's \<open>None\<close> when not given, here \<open>None\<close>.\<close>

definition MultiValueDict_get :: "('k, 'v) MultiValueDict \<Rightarrow> 'k \<Rightarrow> 'v option \<Rightarrow> 'v option" where
  "MultiValueDict_get d key dflt =
     (case MultiValueDict_getitem d key of
        Inl e \<Rightarrow> dflt
      | Inr EmptyList \<Rightarrow> dflt
      | Inr (Item val) \<Rightarrow> Some val)"

definition MultiValueDict_getlist_internal ::
  "('k, 'v) MultiValueDict \<Rightarrow> 'k \<Rightarrow> 'v list option \<Rightarrow> bool \<Rightarrow> 'v list" where
  "MultiValueDict_getlist_internal d key dflt force_list =
     (case map_of d key of
        None \<Rightarrow> (case dflt of None \<Rightarrow> [] | Some dl \<Rightarrow> dl)
      | Some values \<Rightarrow> values)"

definition MultiValueDict_getlist :: "('k, 'v) MultiValueDict \<Rightarrow> 'k \<Rightarrow> 'v list option \<Rightarrow> 'v list" where
  "MultiValueDict_getlist d key dflt = MultiValueDict_getlist_internal d key dflt True"

definition MultiValueDict_setlist ::
  "('k, 'v) MultiValueDict \<Rightarrow> 'k \<Rightarrow> 'v potential_list \<Rightarrow> ('k, 'v) MultiValueDict" where
  "MultiValueDict_setlist d key potential_list =
     (let vlist = (case potential_list of PNone \<Rightarrow> [] | PList l \<Rightarrow> l | PSingle v \<Rightarrow> [v])
      in AList.update key vlist d)"

definition MultiValueDict_setdefault ::
  "('k, 'v) MultiValueDict \<Rightarrow> 'k \<Rightarrow> 'v \<Rightarrow> (py_error + 'v item) \<times> ('k, 'v) MultiValueDict" where
  "MultiValueDict_setdefault d key dflt =
     (let d' = (if \<not> MultiValueDict_contains d key then MultiValueDict_setitem d key dflt else d)
      in (MultiValueDict_getitem d' key, d'))"

text \<open>
  \<open>setlistdefault\<close> returns the dictionary's own list for the key (\<open>_getlist\<close> without
  \<open>force_list\<close>), which \<open>appendlist\<close> then extends in place; the model returns the list
  and the updated dictionary, and \<open>appendlist\<close> writes the extended list back.
\<close>

definition MultiValueDict_setlistdefault ::
  "('k, 'v) MultiValueDict \<Rightarrow> 'k \<Rightarrow> 'v list option \<Rightarrow> 'v list \<times> ('k, 'v) MultiValueDict" where
  "MultiValueDict_setlistdefault d key default_list =
     (let d' = (if \<not> MultiValueDict_contains d key
                then MultiValueDict_setlist d key
                       (PList (case default_list of None \<Rightarrow> [] | Some dl \<Rightarrow> dl))
                else d)
      in (MultiValueDict_getlist_internal d' key None False, d'))"

definition MultiValueDict_appendlist ::
  "('k, 'v) MultiValueDict \<Rightarrow> 'k \<Rightarrow> 'v \<Rightarrow> ('k, 'v) MultiValueDict" where
  "MultiValueDict_appendlist d key value =
     (case MultiValueDict_setlistdefault d key None of
        (vlist, d') \<Rightarrow> AList.update key (vlist @ [value]) d')"


text \<open>\<open>dict.pop(key[, default])\<close>, \<open>dict.popitem()\<close> and \<open>dict.clear()\<close>, inherited unchanged.
  \<open>pop\<close> returns the stored list, or the default when the key is absent and one is given.\<close>

datatype 'v popped = Popped "'v list" | PopDefault 'v

definition MultiValueDict_pop ::
  "('k, 'v) MultiValueDict \<Rightarrow> 'k \<Rightarrow> 'v option \<Rightarrow> (py_error + 'v popped) \<times> ('k, 'v) MultiValueDict" where
  "MultiValueDict_pop d key dflt =
     (case map_of d key of
        Some vlist \<Rightarrow> (Inr (Popped vlist), AList.delete key d)
      | None \<Rightarrow> (case dflt of None \<Rightarrow> (Inl KeyError, d) | Some dv \<Rightarrow> (Inr (PopDefault dv), d)))"

definition MultiValueDict_popitem ::
  "('k, 'v) MultiValueDict \<Rightarrow> (py_error + 'k \<times> 'v list) \<times> ('k, 'v) MultiValueDict" where
  "MultiValueDict_popitem d =
     (if d = [] then (Inl KeyError, d) else (Inr (last d), butlast d))"

definition MultiValueDict_clear :: "('k, 'v) MultiValueDict \<Rightarrow> ('k, 'v) MultiValueDict" where
  "MultiValueDict_clear d = []"

section \<open>Python string operations\<close>

text \<open>
  The source is Python 2 (\<open>print\<close> statements, \<open>from urllib import quote, urlencode\<close>):
  a \<open>str\<close> is a sequence of bytes, here a \<open>string\<close>, whose characters are bytes.
\<close>

definition CRLF :: string where
  "CRLF = [CHR 0x0D, CHR 0x0A]"

definition CRLFCRLF :: string where
  "CRLFCRLF = [CHR 0x0D, CHR 0x0A, CHR 0x0D, CHR 0x0A]"

text \<open>\<open>s.find(sub)\<close>: the lowest index where \<open>sub\<close> starts, \<open>None\<close> for Python's \<open>-1\<close>.\<close>

fun find_sub :: "string \<Rightarrow> string \<Rightarrow> nat option" where
  "find_sub sub [] = (if sub = [] then Some 0 else None)"
| "find_sub sub (x # xs) =
     (if take (length sub) (x # xs) = sub then Some 0 else map_option Suc (find_sub sub xs))"

text \<open>\<open>s.find(sub, start)\<close> for a non-negative \<open>start\<close>.\<close>

definition find_from :: "string \<Rightarrow> string \<Rightarrow> nat \<Rightarrow> nat option" where
  "find_from sub s start =
     (if length s < start then None
      else map_option (\<lambda>i. i + start) (find_sub sub (drop start s)))"

text \<open>\<open>s.split(sep, maxsplit)\<close> for a one-character separator: at most \<open>maxsplit\<close> cuts,
  empty pieces kept.\<close>

fun split_max :: "char \<Rightarrow> nat \<Rightarrow> string \<Rightarrow> string list" where
  "split_max sep 0 s = [s]"
| "split_max sep (Suc n) [] = [[]]"
| "split_max sep (Suc n) (x # xs) =
     (if x = sep then [] # split_max sep n xs
      else (case split_max sep (Suc n) xs of
              [] \<Rightarrow> [[x]]
            | piece # pieces \<Rightarrow> (x # piece) # pieces))"

text \<open>\<open>s.split(sep)\<close>: no bound on the number of cuts (a string has fewer separators than
  characters).\<close>

definition split :: "char \<Rightarrow> string \<Rightarrow> string list" where
  "split sep s = split_max sep (length s) s"

text \<open>\<open>s.rsplit(sep, 1)\<close>: one cut at the last separator, if there is one.\<close>

definition rsplit1 :: "char \<Rightarrow> string \<Rightarrow> string list" where
  "rsplit1 sep s = map rev (rev (split_max sep 1 (rev s)))"


text \<open>\<open>s.lower()\<close> of a byte string: the ASCII capitals are mapped, every other byte is kept.\<close>

definition lower_char :: "char \<Rightarrow> char" where
  "lower_char c =
     (case map_of (zip ''ABCDEFGHIJKLMNOPQRSTUVWXYZ'' ''abcdefghijklmnopqrstuvwxyz'') c of
        Some l \<Rightarrow> l
      | None \<Rightarrow> c)"

definition lower :: "string \<Rightarrow> string" where
  "lower s = map lower_char s"

text \<open>\<open>s.strip()\<close>: the ASCII whitespace bytes (space, tab, LF, VT, FF, CR) are removed at
  both ends.\<close>

definition is_space :: "char \<Rightarrow> bool" where
  "is_space c = (c \<in> set [CHR '' '', CHR 0x09, CHR 0x0A, CHR 0x0B, CHR 0x0C, CHR 0x0D])"

definition strip :: "string \<Rightarrow> string" where
  "strip s = rev (dropWhile is_space (rev (dropWhile is_space s)))"

text \<open>
  \<open>s.encode('ascii', '')\<close> on a Python 2 \<open>str\<close>: the bytes are first decoded as ASCII,
  which raises \<open>UnicodeDecodeError\<close> on a byte above 127, and encoding the result back
  gives the same bytes.
\<close>

definition encode_ascii :: "string \<Rightarrow> py_error + string" where
  "encode_ascii s = (if list_all (\<lambda>c. \<not> digit7 c) s then Inr s else Inl UnicodeError)"

text \<open>Unpacking a sequence into three targets: \<open>a, b, c = seq\<close> raises \<open>ValueError\<close>
  unless the sequence has exactly three elements.\<close>

fun unpack3 :: "'a list \<Rightarrow> py_error + 'a \<times> 'a \<times> 'a" where
  "unpack3 [a, b, c] = Inr (a, b, c)"
| "unpack3 _ = Inl ValueError"

text \<open>\<open>int(s)\<close> of a string: surrounding whitespace, an optional sign, decimal digits;
  \<open>ValueError\<close> otherwise.\<close>

definition digit_val :: "char \<Rightarrow> nat option" where
  "digit_val c = map_of (zip ''0123456789'' [0, 1, 2, 3, 4, 5, 6, 7, 8, 9]) c"

definition is_digit :: "char \<Rightarrow> bool" where
  "is_digit c = (digit_val c \<noteq> None)"

definition digits_val :: "string \<Rightarrow> nat" where
  "digits_val ds = foldl (\<lambda>acc c. 10 * acc + (case digit_val c of Some d \<Rightarrow> d | None \<Rightarrow> 0)) 0 ds"

definition py_int :: "string \<Rightarrow> py_error + int" where
  "py_int s =
     (let t = strip s;
          neg = (t \<noteq> [] \<and> hd t = CHR ''-'');
          ds = (if t \<noteq> [] \<and> (hd t = CHR ''-'' \<or> hd t = CHR ''+'') then tl t else t)
      in if ds \<noteq> [] \<and> list_all is_digit ds
         then Inr (if neg then - int (digits_val ds) else int (digits_val ds))
         else Inl ValueError)"

section \<open>urllib: quote, quote_plus, urlencode, unquote\<close>







text \<open>
  \<open>unquote\<close>: each \<open>%\<close> followed by two hexadecimal digits (either case) becomes the byte
  they denote; any other \<open>%\<close> is kept.
\<close>

definition unhex :: "char \<Rightarrow> nat option" where
  "unhex c =
     map_of (zip ''0123456789ABCDEFabcdef''
       [0, 1, 2, 3, 4, 5, 6, 7, 8, 9, 10, 11, 12, 13, 14, 15, 10, 11, 12, 13, 14, 15]) c"

fun unquote :: "string \<Rightarrow> string" where
  "unquote (c # h1 # h2 # rest) =
     (if c = CHR ''%'' \<and> unhex h1 \<noteq> None \<and> unhex h2 \<noteq> None
      then char_of (16 * the (unhex h1) + the (unhex h2)) # unquote rest
      else c # unquote (h1 # h2 # rest))"
| "unquote s = s"

section \<open>Configuration and codecs\<close>

text \<open>
  \<open>request_parser.conf.settings\<close> is not part of the sources at hand: the settings the
  code reads are the fields of a record that every function using them takes.
\<close>

record settings =
  DEFAULT_CHARSET :: string
  MAX_HEADER_SIZE :: nat
  DATA_UPLOAD_MAX_MEMORY_SIZE :: "nat option"
  DATA_UPLOAD_MAX_NUMBER_FIELDS :: "nat option"

text \<open>
  A character encoding is outside the sources too. A codec gives \<open>text.encode(name)\<close>,
  \<open>bytes.decode(name, 'replace')\<close> (total) and the strict \<open>bytes.decode(name)\<close>, which can
  raise \<open>UnicodeDecodeError\<close>; the functions below take the table of codecs by name.
\<close>

record codec =
  encode :: "string \<Rightarrow> string"
  decode :: "string \<Rightarrow> string"
  decode_strict :: "string \<Rightarrow> string option"

type_synonym codecs = "string \<Rightarrow> codec"

section \<open>utils/http.py: limited_parse_qsl\<close>

text \<open>
  Modelled from the spec: \<open>limited_parse_qsl\<close> of \<open>request_parser.utils.http\<close> is missing
  from the sources. The spec describes a bounded parse of a raw query string: the
  pairs are the non-empty fields between \<open>&\<close>, each split at its first \<open>=\<close>; with
  \<open>keep_blank_values\<close> a key with no \<open>=\<close> or with \<open>key=\<close> yields an empty-string value,
  not an omitted key; keys and values are form-decoded (\<open>+\<close> is a space, \<open>%XX\<close> a byte)
  and decoded to text with the encoding, malformed bytes being replaced; a configured
  maximum field count bounds the parsed key/value pairs, and exceeding it fails the
  parse rather than truncating.
\<close>

definition plus_to_space :: "string \<Rightarrow> string" where
  "plus_to_space s = map (\<lambda>c. if c = CHR ''+'' then CHR '' '' else c) s"

definition parse_field :: "codec \<Rightarrow> bool \<Rightarrow> string \<Rightarrow> (string \<times> string) list" where
  "parse_field cd keep_blank_values name_value =
     (if name_value = [] then []
      else case split_max CHR ''='' 1 name_value of
             [name, val] \<Rightarrow>
               (if val \<noteq> [] \<or> keep_blank_values
                then [(decode cd (unquote (plus_to_space name)),
                       decode cd (unquote (plus_to_space val)))]
                else [])
           | _ \<Rightarrow>
               (if keep_blank_values
                then [(decode cd (unquote (plus_to_space name_value)),
                       decode cd (unquote (plus_to_space [])))]
                else []))"

definition limited_parse_qsl ::
  "codec \<Rightarrow> string \<Rightarrow> bool \<Rightarrow> nat option \<Rightarrow> py_error + (string \<times> string) list" where
  "limited_parse_qsl cd qs keep_blank_values fields_limit =
     (let r = concat (map (parse_field cd keep_blank_values) (split CHR ''&'' qs))
      in case fields_limit of
           None \<Rightarrow> Inr r
         | Some n \<Rightarrow> (if n < length r then Inl TooManyFieldsSent else Inr r))"

section \<open>http/request.py: QueryDict\<close>

text \<open>
  A value stored in a QueryDict is a text, or \<open>None\<close> (\<open>setdefault(key)\<close> stores its default
  \<open>None\<close>). Keys are texts. \<open>str(v)\<close> is the text itself, and \<open>'None'\<close> for \<open>None\<close>.
\<close>

datatype pyval = Str string | PyNone


text \<open>
  \<open>bytes_to_text(s, encoding)\<close> returns any non-bytes object without change. The keys and
  values of this model are texts or \<open>None\<close>, so it returns its argument.
\<close>

definition bytes_to_text :: "'a \<Rightarrow> string \<Rightarrow> 'a" where
  "bytes_to_text s enc = s"

text \<open>The query string given to the constructor: absent, a text, or bytes.\<close>

datatype query_string = QNone | QText string | QBytes string

record QueryDict =
  dict :: "(string, pyval) MultiValueDict"
  mutable :: bool
  encoding :: string

definition QueryDict_assert_mutable :: "QueryDict \<Rightarrow> py_error option" where
  "QueryDict_assert_mutable q =
     (if \<not> mutable q then Some (AttributeError ''This QueryDict instance is immutable'')
      else None)"

definition QueryDict_setitem :: "QueryDict \<Rightarrow> string \<Rightarrow> pyval \<Rightarrow> (py_error + unit) \<times> QueryDict" where
  "QueryDict_setitem q key val =
     (case QueryDict_assert_mutable q of
        Some e \<Rightarrow> (Inl e, q)
      | None \<Rightarrow>
          (let key = bytes_to_text key (encoding q);
               val = bytes_to_text val (encoding q)
           in (Inr (), q\<lparr>dict := MultiValueDict_setitem (dict q) key val\<rparr>)))"

definition QueryDict_delitem :: "QueryDict \<Rightarrow> string \<Rightarrow> (py_error + unit) \<times> QueryDict" where
  "QueryDict_delitem q key =
     (case QueryDict_assert_mutable q of
        Some e \<Rightarrow> (Inl e, q)
      | None \<Rightarrow>
          (case MultiValueDict_delitem (dict q) key of
             Inl e \<Rightarrow> (Inl e, q)
           | Inr d \<Rightarrow> (Inr (), q\<lparr>dict := d\<rparr>)))"

definition QueryDict_setlist :: "QueryDict \<Rightarrow> string \<Rightarrow> pyval list \<Rightarrow> (py_error + unit) \<times> QueryDict" where
  "QueryDict_setlist q key vlist =
     (case QueryDict_assert_mutable q of
        Some e \<Rightarrow> (Inl e, q)
      | None \<Rightarrow>
          (let key = bytes_to_text key (encoding q);
               vlist = map (\<lambda>elt. bytes_to_text elt (encoding q)) vlist
           in (Inr (), q\<lparr>dict := MultiValueDict_setlist (dict q) key (PList vlist)\<rparr>)))"

text \<open>
  \<open>MultiValueDict.setlistdefault\<close>, \<open>appendlist\<close> and \<open>setdefault\<close> call \<open>self.setlist\<close>,
  \<open>self.setlistdefault\<close> and \<open>self[key] = ...\<close>: on a QueryDict these are the QueryDict's
  own methods, which check the flag again.
\<close>

definition QueryDict_setlistdefault ::
  "QueryDict \<Rightarrow> string \<Rightarrow> pyval list option \<Rightarrow> (py_error + pyval list) \<times> QueryDict" where
  "QueryDict_setlistdefault q key default_list =
     (case QueryDict_assert_mutable q of
        Some e \<Rightarrow> (Inl e, q)
      | None \<Rightarrow>
          (if \<not> MultiValueDict_contains (dict q) key
           then (case QueryDict_setlist q key (case default_list of None \<Rightarrow> [] | Some dl \<Rightarrow> dl) of
                   (Inl e, q') \<Rightarrow> (Inl e, q')
                 | (Inr u, q') \<Rightarrow> (Inr (MultiValueDict_getlist_internal (dict q') key None False), q'))
           else (Inr (MultiValueDict_getlist_internal (dict q) key None False), q)))"

definition QueryDict_appendlist :: "QueryDict \<Rightarrow> string \<Rightarrow> pyval \<Rightarrow> (py_error + unit) \<times> QueryDict" where
  "QueryDict_appendlist q key val =
     (case QueryDict_assert_mutable q of
        Some e \<Rightarrow> (Inl e, q)
      | None \<Rightarrow>
          (let key = bytes_to_text key (encoding q);
               val = bytes_to_text val (encoding q)
           in case QueryDict_setlistdefault q key None of
                (Inl e, q') \<Rightarrow> (Inl e, q')
              | (Inr vlist, q') \<Rightarrow> (Inr (), q'\<lparr>dict := AList.update key (vlist @ [val]) (dict q')\<rparr>)))"

definition QueryDict_pop ::
  "QueryDict \<Rightarrow> string \<Rightarrow> pyval option \<Rightarrow> (py_error + pyval popped) \<times> QueryDict" where
  "QueryDict_pop q key args =
     (case QueryDict_assert_mutable q of
        Some e \<Rightarrow> (Inl e, q)
      | None \<Rightarrow>
          (case MultiValueDict_pop (dict q) key args of
             (res, d) \<Rightarrow> (res, q\<lparr>dict := d\<rparr>)))"

definition QueryDict_popitem :: "QueryDict \<Rightarrow> (py_error + string \<times> pyval list) \<times> QueryDict" where
  "QueryDict_popitem q =
     (case QueryDict_assert_mutable q of
        Some e \<Rightarrow> (Inl e, q)
      | None \<Rightarrow>
          (case MultiValueDict_popitem (dict q) of
             (res, d) \<Rightarrow> (res, q\<lparr>dict := d\<rparr>)))"

definition QueryDict_clear :: "QueryDict \<Rightarrow> (py_error + unit) \<times> QueryDict" where
  "QueryDict_clear q =
     (case QueryDict_assert_mutable q of
        Some e \<Rightarrow> (Inl e, q)
      | None \<Rightarrow> (Inr (), q\<lparr>dict := MultiValueDict_clear (dict q)\<rparr>))"

definition QueryDict_setdefault ::
  "QueryDict \<Rightarrow> string \<Rightarrow> pyval \<Rightarrow> (py_error + pyval item) \<times> QueryDict" where
  "QueryDict_setdefault q key dflt =
     (case QueryDict_assert_mutable q of
        Some e \<Rightarrow> (Inl e, q)
      | None \<Rightarrow>
          (let key = bytes_to_text key (encoding q);
               dflt = bytes_to_text dflt (encoding q)
           in if \<not> MultiValueDict_contains (dict q) key
              then (case QueryDict_setitem q key dflt of
                      (Inl e, q') \<Rightarrow> (Inl e, q')
                    | (Inr u, q') \<Rightarrow> (MultiValueDict_getitem (dict q') key, q'))
              else (MultiValueDict_getitem (dict q) key, q)))"

text \<open>
  The constructor. The class attribute \<open>_mutable = True\<close> is what \<open>appendlist\<close> sees while
  the pairs are stored; the \<open>mutable\<close> argument is assigned last. The loop over the
  parsed pairs stops at the first exception.
\<close>

fun QueryDict_init_loop :: "QueryDict \<Rightarrow> (string \<times> string) list \<Rightarrow> py_error + QueryDict" where
  "QueryDict_init_loop q [] = Inr q"
| "QueryDict_init_loop q ((key, val) # pairs) =
     (case QueryDict_appendlist q key (Str val) of
        (Inl e, q') \<Rightarrow> Inl e
      | (Inr u, q') \<Rightarrow> QueryDict_init_loop q' pairs)"

definition QueryDict_init ::
  "settings \<Rightarrow> codecs \<Rightarrow> query_string \<Rightarrow> bool \<Rightarrow> string option \<Rightarrow> py_error + QueryDict" where
  "QueryDict_init st cds qs_arg mutable_arg encoding_arg =
     (let enc = (case encoding_arg of
                   None \<Rightarrow> DEFAULT_CHARSET st
                 | Some e \<Rightarrow> (if e = [] then DEFAULT_CHARSET st else e));
          query_string =
            (case qs_arg of
               QNone \<Rightarrow> []
             | QText s \<Rightarrow> s
             | QBytes b \<Rightarrow>
                 (case decode_strict (cds enc) b of
                    Some s \<Rightarrow> s
                  | None \<Rightarrow> decode (cds ''iso-8859-1'') b))
      in case limited_parse_qsl (cds enc) query_string True (DATA_UPLOAD_MAX_NUMBER_FIELDS st) of
           Inl e \<Rightarrow> Inl e
         | Inr pairs \<Rightarrow>
             (case QueryDict_init_loop \<lparr>dict = [], mutable = True, encoding = enc\<rparr> pairs of
                Inl e \<Rightarrow> Inl e
              | Inr q \<Rightarrow> Inr (q\<lparr>mutable := mutable_arg\<rparr>)))"


section \<open>http/request.py: split_domain_port\<close>

text \<open>
  The regular expressions \<open>host_validation_re\<close> needs: a literal character, a character
  class repeated (\<open>*\<close> or \<open>+\<close>), sequence, alternative and option. \<open>rests r s\<close> lists what
  can remain of \<open>s\<close> after a prefix of it has matched \<open>r\<close>, so the backtracking search of
  Python's \<open>re\<close> finds a match exactly when one of the remainders is acceptable.
\<close>

datatype rx = Lit char | Star string | Plus string | Seq rx rx | Alt rx rx | Opt rx

fun star_rests :: "string \<Rightarrow> string \<Rightarrow> string list" where
  "star_rests cls [] = [[]]"
| "star_rests cls (x # xs) = (x # xs) # (if x \<in> set cls then star_rests cls xs else [])"

fun rests :: "rx \<Rightarrow> string \<Rightarrow> string list" where
  "rests (Lit c) s = (case s of [] \<Rightarrow> [] | x # xs \<Rightarrow> (if x = c then [xs] else []))"
| "rests (Star cls) s = star_rests cls s"
| "rests (Plus cls) s = (case s of [] \<Rightarrow> [] | x # xs \<Rightarrow> (if x \<in> set cls then star_rests cls xs else []))"
| "rests (Seq a b) s = concat (map (rests b) (rests a s))"
| "rests (Alt a b) s = rests a s @ rests b s"
| "rests (Opt a) s = rests a s @ [s]"

text \<open>
  \<open>re.compile('^...$').match(s)\<close>: the pattern is matched from the start of \<open>s\<close>, and \<open>$\<close>
  accepts the end of the string or the position before a final newline.
\<close>

definition re_match :: "rx \<Rightarrow> string \<Rightarrow> bool" where
  "re_match r s = list_ex (\<lambda>rest. rest = [] \<or> rest = [CHR 0x0A]) (rests r s)"

text \<open>\<open>^([a-z0-9.-]+|\[[a-f0-9]*:[a-f0-9\.:]+\])(:\d+)?$\<close>\<close>

definition host_validation_re :: rx where
  "host_validation_re =
     Seq (Alt (Plus ''abcdefghijklmnopqrstuvwxyz0123456789.-'')
              (Seq (Lit CHR ''['')
                (Seq (Star ''abcdef0123456789'')
                  (Seq (Lit CHR '':'')
                    (Seq (Plus ''abcdef0123456789.:'') (Lit CHR '']''))))))
         (Opt (Seq (Lit CHR '':'') (Plus ''0123456789'')))"

text \<open>
  \<open>split_domain_port\<close>. After a match the host is not empty, so \<open>host[-1]\<close> is its last
  character.
\<close>

definition split_domain_port :: "string \<Rightarrow> string \<times> string" where
  "split_domain_port host0 =
     (let host = lower host0
      in if \<not> re_match host_validation_re host then ([], [])
         else if host \<noteq> [] \<and> last host = CHR '']'' then (host, [])
         else (let bits = rsplit1 CHR '':'' host;
                   (domain, port) = (case bits of
                                       [d, p] \<Rightarrow> (d, p)
                                     | d # ds \<Rightarrow> (d, [])
                                     | [] \<Rightarrow> ([], []));
                   domain = (if domain \<noteq> [] \<and> last domain = CHR ''.'' then butlast domain else domain)
               in (domain, port)))"

text \<open>
  The port of a request is the text \<open>split_domain_port\<close> returns, or the number the
  caller chooses when that text is empty.
\<close>

datatype port_value = PortStr string | PortInt int

text \<open>The \<open>if not port: ...\<close> block of \<open>parse_request_header\<close>, on the scheme of the request
  line.\<close>

definition assign_port :: "string \<Rightarrow> string \<Rightarrow> port_value" where
  "assign_port scheme_text port =
     (if port = [] then
        (if lower scheme_text = ''https'' then PortInt 443
         else if lower scheme_text = ''http'' then PortInt 80
         else PortInt 65536)
      else PortStr port)"

section \<open>http/request.py: tokenizing the header\<close>

text \<open>
  \<open>parse_request_headers\<close>: the first line is the request line; every following line is
  cut at its first colon. The loop keeps the variable \<open>header\<close> of the previous line:
  the message of the exception for a line without a colon formats it, which raises
  \<open>UnboundLocalError\<close> when no line has bound it yet.
\<close>

function headers_loop ::
  "string \<Rightarrow> string option \<Rightarrow> (string \<times> string list) list \<Rightarrow> py_error + (string \<times> string list) list" where
  "headers_loop request_header_stream header request_headers =
     (case find_from CRLF request_header_stream 1 of
        None \<Rightarrow> Inr request_headers
      | Some e \<Rightarrow>
          (let request_header = take e request_header_stream;
               rest = drop (e + 2) request_header_stream
           in case find_sub '':'' request_header of
                Some end_index \<Rightarrow>
                  (case encode_ascii (take end_index request_header) of
                     Inl err \<Rightarrow> Inl err
                   | Inr hd_name \<Rightarrow>
                       (case encode_ascii (strip (drop (end_index + 1) request_header)) of
                          Inl err \<Rightarrow> Inl err
                        | Inr val \<Rightarrow>
                            headers_loop rest (Some hd_name)
                              (case map_of request_headers hd_name of
                                 Some vlist \<Rightarrow> AList.update hd_name (vlist @ [val]) request_headers
                               | None \<Rightarrow> AList.update hd_name [val] request_headers)))
              | None \<Rightarrow>
                  (case header of
                     None \<Rightarrow> Inl UnboundLocalError
                   | Some h \<Rightarrow> Inl (InvalidHttpRequest (''Invalid request header: '' @ h) None))))"
  by pat_completeness auto
termination
proof (relation "measure (\<lambda>(s, h, d). length s)")
  show "wf (measure (\<lambda>(s, h, d). length s))" by simp
next
  fix request_header_stream :: string and header :: "string option"
    and request_headers :: "(string \<times> string list) list"
    and x2 x xa x2a x2b x2c
  assume f: "find_from CRLF request_header_stream 1 = Some x2"
    and xa: "xa = drop (x2 + 2) request_header_stream"
  from f have "request_header_stream \<noteq> []"
    by (auto simp: find_from_def split: if_splits)
  with xa show "((xa, Some x2b, case map_of request_headers x2b of
                     None \<Rightarrow> AList.update x2b [x2c] request_headers
                   | Some vlist \<Rightarrow> AList.update x2b (vlist @ [x2c]) request_headers),
                 request_header_stream, header, request_headers)
                \<in> measure (\<lambda>(s, h, d). length s)"
    by simp
qed

declare headers_loop.simps [simp del]

definition parse_request_headers ::
  "string \<Rightarrow> py_error + string \<times> (string, string) MultiValueDict" where
  "parse_request_headers request_header_stream =
     (case find_from CRLF request_header_stream 1 of
        None \<Rightarrow> Inl (InvalidHttpRequest ''Invalid request.'' None)
      | Some e \<Rightarrow>
          (let request_line = take e request_header_stream;
               rest = drop (e + 2) request_header_stream
           in case headers_loop rest None [] of
                Inl err \<Rightarrow> Inl err
              | Inr request_headers \<Rightarrow>
                  (if length request_headers = 0
                   then Inl (InvalidHttpRequest ''Invalid request.'' None)
                   else Inr (request_line, MultiValueDict_init request_headers))))"

text \<open>
  \<open>parse_request_line\<close>. \<open>_urlparse\<close> of \<open>request_parser.utils.http\<close> is not part of the
  sources: the function takes it as \<open>urlparse\<close>, from the request target to its six
  parts. The dictionary of eight entries it returns is a record.
\<close>

type_synonym urlparts = "string \<times> string \<times> string \<times> string \<times> string \<times> string"

record request_line_result =
  SCHEME :: string
  DOMAIN :: string
  PATH :: string
  PARAMS :: string
  QUERY_STRING :: string
  FRAGMENT :: string
  METHOD :: string
  PROTO_INFO :: string

text \<open>
  The first statement, \<open>method, uri, protocol_version = ''\<close>, unpacks the characters of
  the empty string into three targets.
\<close>

definition parse_request_line :: "(string \<Rightarrow> urlparts) \<Rightarrow> string \<Rightarrow> py_error + request_line_result" where
  "parse_request_line urlparse request_line =
     (case unpack3 (map (\<lambda>c :: char. [c]) '''') of
        Inl err \<Rightarrow> Inl err
      | Inr (method0, uri0, protocol_version0) \<Rightarrow>
          (let splits = split_max CHR '' '' 3 request_line
           in if 3 < length splits then Inl (InvalidHttpRequest ''Invalid request line.'' (Some 400))
              else (case unpack3 splits of
                      Inl err \<Rightarrow> Inl err
                    | Inr (method_token, uri, protocol_version) \<Rightarrow>
                        (if method_token = [] \<or> uri = [] \<or> protocol_version = []
                         then Inl (InvalidHttpRequest ''Invalid request line.'' (Some 400))
                         else (case urlparse uri of
                                 (p0, p1, p2, p3, p4, p5) \<Rightarrow>
                                   Inr \<lparr>SCHEME = p0, DOMAIN = p1, PATH = p2, PARAMS = p3,
                                        QUERY_STRING = p4, FRAGMENT = p5, METHOD = method_token,
                                        PROTO_INFO = protocol_version\<rparr>)))))"

section \<open>http/request.py: HttpRequest\<close>

text \<open>
  Modelled from the spec: \<open>LazyStream\<close> of \<open>request_parser.http.multipartparser\<close> is
  missing from the sources. The spec's ByteSource has \<open>read(max_bytes)\<close>, which returns
  the next bytes, fewer than asked or none at the end of the stream, and
  \<open>unget(bytes)\<close>, which pushes bytes back so that a later read returns them first.
  The state of the source is the sequence of its unread bytes.
\<close>

type_synonym LazyStream = string

definition LazyStream_read :: "nat \<Rightarrow> LazyStream \<Rightarrow> string \<times> LazyStream" where
  "LazyStream_read n s = (take n s, drop n s)"

definition LazyStream_unget :: "string \<Rightarrow> LazyStream \<Rightarrow> LazyStream" where
  "LazyStream_unget bytes s = bytes @ s"

text \<open>
  The keys of \<open>constants.MetaDict\<close> that \<open>HttpRequest\<close> uses on \<open>META\<close> are not part of the
  sources either, and are taken as given. \<open>META\<close> holds the query string and the header
  map (\<open>ImmutableMultiValueDict\<close>, likewise absent: the same map).
\<close>

record MetaDict =
  Info_QUERY_STRING :: string
  Info_REQ_HEADERS :: string
  ReqLine_QUERY_STRING :: string

datatype meta_value = MetaStr string | MetaHeaders "(string, string) MultiValueDict"

text \<open>The stream \<open>_stream\<close> a subclass provides: a buffer of bytes, or a stream whose
  read raises \<open>IOError\<close>.\<close>

datatype py_stream = BytesIO string | BrokenStream

text \<open>
  The attributes of an \<open>HttpRequest\<close> (\<open>request_method\<close> is the attribute \<open>method\<close>). Those the
  constructor assigns are always there;
  \<open>_read_started\<close>, \<open>_body\<close>, \<open>_stream\<close>, \<open>_post\<close> and \<open>_files\<close> exist only once some
  request_method has assigned them, so each is an option, \<open>None\<close> while the attribute is not set.
\<close>

record HttpRequest =
  GET :: QueryDict
  POST :: QueryDict
  META :: "string \<Rightarrow> meta_value option"
  FILES :: "(string, string) MultiValueDict"
  request_method :: "string option"
  scheme :: string
  host :: string
  port :: port_value
  path :: string
  path_info :: string
  protocol_info :: string
  content_type :: "string option"
  content_params :: "string option"
  encoding_attr :: string
  read_started_attr :: "bool option"
  body_attr :: "string option"
  stream_attr :: "py_stream option"
  post_attr :: "QueryDict option"
  files_attr :: "(string, string) MultiValueDict option"

definition HttpRequest_init :: "settings \<Rightarrow> codecs \<Rightarrow> py_error + HttpRequest" where
  "HttpRequest_init st cds =
     (case QueryDict_init st cds QNone True None of
        Inl err \<Rightarrow> Inl err
      | Inr g \<Rightarrow>
          (case QueryDict_init st cds QNone True None of
             Inl err \<Rightarrow> Inl err
           | Inr p \<Rightarrow>
               Inr \<lparr>GET = g, POST = p, META = Map.empty, FILES = MultiValueDict_init [],
                    request_method = None, scheme = [], host = [], port = PortStr [], path = [],
                    path_info = [], protocol_info = [], content_type = None,
                    content_params = None, encoding_attr = DEFAULT_CHARSET st,
                    read_started_attr = None, body_attr = None, stream_attr = None,
                    post_attr = None, files_attr = None\<rparr>))"

text \<open>
  The loop of \<open>parse_request_header\<close> that reads chunks until one of them holds
  \<open>\r\n\r\n\<close>. It returns the header collected, the index found in the last chunk
  (\<open>None\<close> for \<open>-1\<close>), the last chunk and the stream.
\<close>

function header_loop ::
  "nat \<Rightarrow> string \<Rightarrow> LazyStream \<Rightarrow> string \<times> nat option \<times> string \<times> LazyStream" where
  "header_loop n request_header stream =
     (case LazyStream_read n stream of
        (chunk, stream') \<Rightarrow>
          (if chunk = [] then (request_header, None, chunk, stream')
           else (case find_sub CRLFCRLF chunk of
                   Some e \<Rightarrow> (request_header @ take e chunk, Some e, chunk, stream')
                 | None \<Rightarrow> header_loop n (request_header @ chunk) stream')))"
  by pat_completeness auto
termination
  by (relation "measure (\<lambda>(n, h, s). length s)") (auto simp: LazyStream_read_def)

declare header_loop.simps [simp del]

text \<open>
  The part of \<open>parse_request_header\<close> after the request line is parsed (from
  \<open>#populate the properties and META info\<close> on), in three definitions: the choice of
  the host (the domain of the request target, else the \<open>Host\<close> header, which is then
  removed from the map), the QueryDict of \<open>GET\<close>, and the assignments in their order.
  An exception leaves the attributes assigned so far.
\<close>

definition request_host ::
  "request_line_result \<Rightarrow> (string, string) MultiValueDict \<Rightarrow>
     py_error + string item \<times> (string, string) MultiValueDict" where
  "request_host meta_dict request_headers =
     (if DOMAIN meta_dict \<noteq> [] then Inr (Item (DOMAIN meta_dict), request_headers)
      else if MultiValueDict_contains request_headers ''Host''
      then (case MultiValueDict_getitem request_headers ''Host'' of
              Inl err \<Rightarrow> Inl err
            | Inr h \<Rightarrow>
                (case MultiValueDict_delitem request_headers ''Host'' of
                   Inl err \<Rightarrow> Inl err
                 | Inr d \<Rightarrow> Inr (h, d)))
      else Inl NoHostFoundException)"

text \<open>\<open>QueryDict(q) if q else QueryDict(mutable=True)\<close> for the value \<open>q\<close> found in \<open>META\<close>.\<close>

definition request_GET :: "settings \<Rightarrow> codecs \<Rightarrow> meta_value \<Rightarrow> py_error + QueryDict" where
  "request_GET st cds mv =
     (case mv of
        MetaStr s \<Rightarrow>
          (if s \<noteq> [] then QueryDict_init st cds (QText s) False None
           else QueryDict_init st cds QNone True None)
      | MetaHeaders d \<Rightarrow>
          (if d \<noteq> [] then Inl TypeError
           else QueryDict_init st cds QNone True None))"

definition HttpRequest_populate ::
  "settings \<Rightarrow> codecs \<Rightarrow> MetaDict \<Rightarrow> request_line_result \<Rightarrow> (string, string) MultiValueDict \<Rightarrow>
     HttpRequest \<Rightarrow> (py_error + unit) \<times> HttpRequest" where
  "HttpRequest_populate st cds mc meta_dict request_headers r =
     (case request_host meta_dict request_headers of
        Inl err \<Rightarrow> (Inl err, r)
      | Inr (host_item, request_headers) \<Rightarrow>
          (let r = r\<lparr>scheme := (if SCHEME meta_dict \<noteq> [] then lower (SCHEME meta_dict)
                                else ''UNKNOWN'')\<rparr>
           in case host_item of
                EmptyList \<Rightarrow> (Inl (AttributeError ''lower''), r)
              | Item host0 \<Rightarrow>
                  (case split_domain_port host0 of
                     (h, p) \<Rightarrow>
                       (let r = r\<lparr>host := h,
                                  port := assign_port (SCHEME meta_dict) p,
                                  request_method := Some (METHOD meta_dict),
                                  path := PATH meta_dict,
                                  protocol_info := PROTO_INFO meta_dict,
                                  content_type := MultiValueDict_get request_headers ''Content-Type'' None\<rparr>
                        in case MultiValueDict_delitem request_headers ''Content-Type'' of
                             Inl err \<Rightarrow> (Inl err, r)
                           | Inr request_headers \<Rightarrow>
                               (let r = r\<lparr>META := (META r)(Info_QUERY_STRING mc \<mapsto>
                                              MetaStr (QUERY_STRING meta_dict))\<rparr>
                                in case META r (ReqLine_QUERY_STRING mc) of
                                     None \<Rightarrow> (Inl KeyError, r)
                                   | Some mv \<Rightarrow>
                                       (case request_GET st cds mv of
                                          Inl err \<Rightarrow> (Inl err, r)
                                        | Inr g \<Rightarrow>
                                            (Inr (),
                                             r\<lparr>GET := g,
                                               META := (META r)(Info_REQ_HEADERS mc \<mapsto>
                                                         MetaHeaders request_headers)\<rparr>)))))))"

text \<open>
  \<open>parse_request_header\<close>. The \<open>LazyStream\<close> it builds over \<open>request_stream\<close> is given with
  its unread bytes, and returned as the function leaves it.
\<close>

definition HttpRequest_parse_request_header ::
  "settings \<Rightarrow> codecs \<Rightarrow> MetaDict \<Rightarrow> (string \<Rightarrow> urlparts) \<Rightarrow> LazyStream \<Rightarrow> HttpRequest \<Rightarrow>
     (py_error + unit) \<times> LazyStream \<times> HttpRequest" where
  "HttpRequest_parse_request_header st cds mc urlparse request_header_stream r =
     (case header_loop (MAX_HEADER_SIZE st) [] request_header_stream of
        (request_header0, request_header_end, chunk, stream1) \<Rightarrow>
          (let request_header = request_header0 @ CRLF
           in case request_header_end of
                None \<Rightarrow> (Inl (InvalidHttpRequest ''Invalid HTTP request.'' (Some 400)), stream1, r)
              | Some e \<Rightarrow>
                  (let stream2 = LazyStream_unget (drop (e + 4) chunk) stream1
                   in case parse_request_headers request_header of
                        Inl err \<Rightarrow> (Inl err, stream2, r)
                      | Inr (request_line, request_headers) \<Rightarrow>
                          (case parse_request_line urlparse request_line of
                             Inl err \<Rightarrow> (Inl err, stream2, r)
                           | Inr meta_dict \<Rightarrow>
                               (case HttpRequest_populate st cds mc meta_dict request_headers r of
                                  (res, r') \<Rightarrow> (res, stream2, r'))))))"

section \<open>http/request.py: reading the body\<close>

text \<open>
  \<open>read\<close> and \<open>readline\<close> assign \<open>_read_started\<close> and then read from \<open>_stream\<close>; a
  missing \<open>_stream\<close> attribute is an \<open>AttributeError\<close>. On an \<open>IOError\<close> of the stream
  the handler calls \<open>six.reraise(UnreadablePostError(*e.args), e)\<close>, that is, with an
  exception instance where the type is expected and a second instance as its value:
  in Python 2 the \<open>raise\<close> statement of \<open>reraise\<close> rejects this with \<open>TypeError\<close>, so
  \<open>UnreadablePostError\<close> is never what the caller sees.
\<close>

definition HttpRequest_read :: "HttpRequest \<Rightarrow> nat option \<Rightarrow> (py_error + string) \<times> HttpRequest" where
  "HttpRequest_read r0 size_arg =
     (let r = r0\<lparr>read_started_attr := Some True\<rparr>
      in case stream_attr r of
           None \<Rightarrow> (Inl (AttributeError ''_stream''), r)
         | Some BrokenStream \<Rightarrow> (Inl TypeError, r)
         | Some (BytesIO s) \<Rightarrow>
             (case size_arg of
                None \<Rightarrow> (Inr s, r\<lparr>stream_attr := Some (BytesIO [])\<rparr>)
              | Some n \<Rightarrow> (Inr (take n s), r\<lparr>stream_attr := Some (BytesIO (drop n s))\<rparr>)))"

definition HttpRequest_readline :: "HttpRequest \<Rightarrow> (py_error + string) \<times> HttpRequest" where
  "HttpRequest_readline r0 =
     (let r = r0\<lparr>read_started_attr := Some True\<rparr>
      in case stream_attr r of
           None \<Rightarrow> (Inl (AttributeError ''_stream''), r)
         | Some BrokenStream \<Rightarrow> (Inl TypeError, r)
         | Some (BytesIO s) \<Rightarrow>
             (case dropWhile (\<lambda>c. c \<noteq> CHR 0x0A) s of
                [] \<Rightarrow> (Inr s, r\<lparr>stream_attr := Some (BytesIO [])\<rparr>)
              | nl # rest \<Rightarrow>
                  (Inr (takeWhile (\<lambda>c. c \<noteq> CHR 0x0A) s @ [nl]),
                   r\<lparr>stream_attr := Some (BytesIO rest)\<rparr>)))"

text \<open>
  \<open>int(self.META.get('CONTENT_LENGTH') or 0) > settings.DATA_UPLOAD_MAX_MEMORY_SIZE\<close>,
  evaluated only when the setting is not \<open>None\<close>.
\<close>

definition content_length_exceeds :: "settings \<Rightarrow> HttpRequest \<Rightarrow> py_error + bool" where
  "content_length_exceeds st r =
     (case DATA_UPLOAD_MAX_MEMORY_SIZE st of
        None \<Rightarrow> Inr False
      | Some limit \<Rightarrow>
          (case (case META r ''CONTENT_LENGTH'' of
                   None \<Rightarrow> Inr 0
                 | Some (MetaStr s) \<Rightarrow> (if s = [] then Inr 0 else py_int s)
                 | Some (MetaHeaders d) \<Rightarrow> (if d = [] then Inr 0 else Inl TypeError)) of
             Inl err \<Rightarrow> Inl err
           | Inr n \<Rightarrow> Inr (int limit < n)))"

text \<open>
  The \<open>body\<close> property. \<open>hasattr(self, '_body')\<close> is \<open>body_attr r \<noteq> None\<close>; reading
  \<open>self._read_started\<close> while the attribute is not set raises \<open>AttributeError\<close>.
\<close>

definition HttpRequest_body :: "settings \<Rightarrow> HttpRequest \<Rightarrow> (py_error + string) \<times> HttpRequest" where
  "HttpRequest_body st r =
     (case body_attr r of
        Some b \<Rightarrow> (Inr b, r)
      | None \<Rightarrow>
          (case read_started_attr r of
             None \<Rightarrow> (Inl (AttributeError ''_read_started''), r)
           | Some started \<Rightarrow>
               (if started then (Inl RawPostDataException, r)
                else (case content_length_exceeds st r of
                        Inl err \<Rightarrow> (Inl err, r)
                      | Inr True \<Rightarrow> (Inl RequestDataTooBig, r)
                      | Inr False \<Rightarrow>
                          (case HttpRequest_read r None of
                             (Inl err, r') \<Rightarrow> (Inl err, r')
                           | (Inr data, r') \<Rightarrow>
                               (Inr data,
                                r'\<lparr>body_attr := Some data, stream_attr := Some (BytesIO data)\<rparr>))))))"

text \<open>
  \<open>_load_post_and_files\<close> and \<open>parse\<close>. The multipart parser is outside the sources:
  \<open>parse_file_upload\<close> stands for \<open>self._parse_file_upload(self.META, data)\<close>, which reads
  from the request and returns the POST and FILES maps or raises.
\<close>

definition HttpRequest_mark_post_parse_error ::
  "settings \<Rightarrow> codecs \<Rightarrow> HttpRequest \<Rightarrow> (py_error + unit) \<times> HttpRequest" where
  "HttpRequest_mark_post_parse_error st cds r =
     (case QueryDict_init st cds QNone False None of
        Inl err \<Rightarrow> (Inl err, r)
      | Inr q \<Rightarrow> (Inr (), r\<lparr>post_attr := Some q, files_attr := Some (MultiValueDict_init [])\<rparr>))"

definition HttpRequest_empty_post ::
  "settings \<Rightarrow> codecs \<Rightarrow> HttpRequest \<Rightarrow> (py_error + unit) \<times> HttpRequest" where
  "HttpRequest_empty_post st cds r =
     (case QueryDict_init st cds QNone False (Some (encoding_attr r)) of
        Inl err \<Rightarrow> (Inl err, r)
      | Inr q \<Rightarrow> (Inr (), r\<lparr>post_attr := Some q, files_attr := Some (MultiValueDict_init [])\<rparr>))"

definition HttpRequest_load_post_and_files ::
  "settings \<Rightarrow> codecs \<Rightarrow>
   (HttpRequest \<Rightarrow> (py_error + QueryDict \<times> (string, string) MultiValueDict) \<times> HttpRequest) \<Rightarrow>
   HttpRequest \<Rightarrow> (py_error + unit) \<times> HttpRequest" where
  "HttpRequest_load_post_and_files st cds parse_file_upload r =
     (if request_method r \<noteq> Some ''POST'' then HttpRequest_empty_post st cds r
      else case read_started_attr r of
             None \<Rightarrow> (Inl (AttributeError ''_read_started''), r)
           | Some started \<Rightarrow>
               (if started \<and> body_attr r = None then HttpRequest_mark_post_parse_error st cds r
                else if content_type r = Some ''multipart/form-data'' then
                  (case parse_file_upload r of
                     (Inl err, r') \<Rightarrow>
                       (case HttpRequest_mark_post_parse_error st cds r' of
                          (Inl err', r'') \<Rightarrow> (Inl err', r'')
                        | (Inr u, r'') \<Rightarrow> (Inl err, r''))
                   | (Inr (post, files), r') \<Rightarrow>
                       (Inr (), r'\<lparr>post_attr := Some post, files_attr := Some files\<rparr>))
                else if content_type r = Some ''application/x-www-form-urlencoded'' then
                  (case HttpRequest_body st r of
                     (Inl err, r') \<Rightarrow> (Inl err, r')
                   | (Inr b, r') \<Rightarrow>
                       (case QueryDict_init st cds (QBytes b) False (Some (encoding_attr r')) of
                          Inl err \<Rightarrow> (Inl err, r')
                        | Inr q \<Rightarrow>
                            (Inr (), r'\<lparr>post_attr := Some q,
                                         files_attr := Some (MultiValueDict_init [])\<rparr>)))
                else HttpRequest_empty_post st cds r))"

definition HttpRequest_parse ::
  "settings \<Rightarrow> codecs \<Rightarrow> MetaDict \<Rightarrow> (string \<Rightarrow> urlparts) \<Rightarrow>
   (HttpRequest \<Rightarrow> (py_error + QueryDict \<times> (string, string) MultiValueDict) \<times> HttpRequest) \<Rightarrow>
   LazyStream \<Rightarrow> HttpRequest \<Rightarrow> (py_error + unit) \<times> LazyStream \<times> HttpRequest" where
  "HttpRequest_parse st cds mc urlparse parse_file_upload request_header_stream r =
     (case HttpRequest_parse_request_header st cds mc urlparse request_header_stream r of
        (Inl err, stream', r') \<Rightarrow> (Inl err, stream', r')
      | (Inr u, stream', r') \<Rightarrow>
          (case HttpRequest_load_post_and_files st cds parse_file_upload r' of
             (res, r'') \<Rightarrow> (res, stream', r'')))"

section \<open>Values for the examples\<close>

text \<open>
  Concrete settings (the sizes Django ships as defaults), a codec table in which every
  name denotes the identity on bytes, the keys of \<open>META\<close> the tests use, a splitter of
  origin-form targets standing for \<open>_urlparse\<close>, and the request the constructor
  returns with these settings.
\<close>

definition example_settings :: settings where
  "example_settings =
     \<lparr>DEFAULT_CHARSET = ''utf-8'', MAX_HEADER_SIZE = 4096,
      DATA_UPLOAD_MAX_MEMORY_SIZE = Some 2621440, DATA_UPLOAD_MAX_NUMBER_FIELDS = Some 1000\<rparr>"

definition example_codecs :: codecs where
  "example_codecs = (\<lambda>name. \<lparr>encode = (\<lambda>s. s), decode = (\<lambda>s. s), decode_strict = (\<lambda>s. Some s)\<rparr>)"

definition example_MetaDict :: MetaDict where
  "example_MetaDict =
     \<lparr>Info_QUERY_STRING = ''QUERY_STRING'', Info_REQ_HEADERS = ''REQUEST_HEADERS'',
      ReqLine_QUERY_STRING = ''QUERY_STRING''\<rparr>"

definition example_urlparse :: "string \<Rightarrow> urlparts" where
  "example_urlparse uri =
     ([], [], takeWhile (\<lambda>c. c \<noteq> CHR ''?'') uri, [],
      drop 1 (dropWhile (\<lambda>c. c \<noteq> CHR ''?'') uri), [])"

definition example_request :: HttpRequest where
  "example_request =
     \<lparr>GET = \<lparr>dict = [], mutable = True, encoding = ''utf-8''\<rparr>,
      POST = \<lparr>dict = [], mutable = True, encoding = ''utf-8''\<rparr>,
      META = Map.empty, FILES = [],
      request_method = None, scheme = [], host = [], port = PortStr [], path = [],
      path_info = [], protocol_info = [], content_type = None,
      content_params = None, encoding_attr = ''utf-8'',
      read_started_attr = None, body_attr = None, stream_attr = None,
      post_attr = None, files_attr = None\<rparr>"

section \<open>Notions for the round trip through urlencode\<close>






section \<open>Properties of MultiValueDict\<close>

lemma contains_appendlist:
  "MultiValueDict_contains (MultiValueDict_appendlist d k v) k' =
     (k' = k \<or> MultiValueDict_contains d k')"
  by (auto simp: MultiValueDict_contains_def MultiValueDict_appendlist_def
      MultiValueDict_setlistdefault_def MultiValueDict_setlist_def
      MultiValueDict_getlist_internal_def Let_def update_conv' split: option.splits)

lemma getlist_appendlist:
  "MultiValueDict_getlist (MultiValueDict_appendlist d k v) k' dflt =
     (if k' = k then MultiValueDict_getlist d k None @ [v] else MultiValueDict_getlist d k' dflt)"
  by (auto simp: MultiValueDict_getlist_def MultiValueDict_contains_def MultiValueDict_appendlist_def
      MultiValueDict_setlistdefault_def MultiValueDict_setlist_def
      MultiValueDict_getlist_internal_def Let_def update_conv' split: option.splits)

lemma get_appendlist_same:
  "MultiValueDict_get (MultiValueDict_appendlist d k v) k dflt = Some v"
  by (auto simp: MultiValueDict_get_def MultiValueDict_getitem_def MultiValueDict_contains_def
      MultiValueDict_appendlist_def MultiValueDict_setlistdefault_def MultiValueDict_setlist_def
      MultiValueDict_getlist_internal_def Let_def update_conv' split: option.splits)

lemma contains_delitem:
  "MultiValueDict_delitem d k = Inr d' \<Longrightarrow> \<not> MultiValueDict_contains d' k"
  by (auto simp: MultiValueDict_delitem_def MultiValueDict_contains_def delete_conv'
      split: if_splits)

lemma getlist_nonempty_contains:
  "MultiValueDict_getlist d k None \<noteq> [] \<Longrightarrow> MultiValueDict_contains d k"
  by (auto simp: MultiValueDict_getlist_def MultiValueDict_getlist_internal_def
      MultiValueDict_contains_def split: option.splits)

lemma get_eq_last_getlist:
  "MultiValueDict_get d k dflt =
     (if MultiValueDict_getlist d k None = [] then dflt
      else Some (last (MultiValueDict_getlist d k None)))"
  by (auto simp: MultiValueDict_get_def MultiValueDict_getitem_def MultiValueDict_getlist_def
      MultiValueDict_getlist_internal_def split: option.splits)

lemma delitem_present:
  "MultiValueDict_contains d k \<Longrightarrow>
     MultiValueDict_delitem d k = Inr (AList.delete k d) \<and>
     \<not> MultiValueDict_contains (AList.delete k d) k \<and>
     MultiValueDict_getlist (AList.delete k d) k None = []"
  by (simp add: MultiValueDict_delitem_def MultiValueDict_contains_def delete_conv'
      MultiValueDict_getlist_def MultiValueDict_getlist_internal_def)

text \<open>
  C6 (as stated, refuted). The claim says that a key is present iff its value list is
  non-empty. \<open>setlistdefault(k)\<close> on the empty dictionary stores the empty list under
  \<open>k\<close>: the key is present and its value list is empty.
\<close>

theorem C6_present_with_empty_list:
  "\<not> (MultiValueDict_contains
         (snd (MultiValueDict_setlistdefault ([] :: (string, string) MultiValueDict) ''k'' None)) ''k''
       \<longleftrightarrow>
       MultiValueDict_getlist
         (snd (MultiValueDict_setlistdefault ([] :: (string, string) MultiValueDict) ''k'' None)) ''k'' None
         \<noteq> [])"
  by (simp add: MultiValueDict_setlistdefault_def MultiValueDict_setlist_def
      MultiValueDict_contains_def MultiValueDict_getlist_def MultiValueDict_getlist_internal_def)

text \<open>
  C6 (amended). In a MultiValueDict a key whose value list is non-empty is present (the
  converse fails: \<open>setlist\<close> and \<open>setlistdefault\<close> can store an empty list). After
  \<open>appendlist(k, v1); appendlist(k, v2)\<close> the key is present, \<open>get(k)\<close> is \<open>v2\<close> and
  \<open>getlist(k)\<close> is the former list followed by \<open>[v1, v2]\<close>; at every point \<open>get(k)\<close> is
  the last element of \<open>getlist(k)\<close>, or the default when that list is empty. The class
  removes values only by key: deleting a present key succeeds and removes the key with
  all of its values at once.
\<close>

theorem C6_append_get_getlist_delete:
  "(MultiValueDict_getlist d k None \<noteq> [] \<longrightarrow> MultiValueDict_contains d k) \<and>
   MultiValueDict_contains (MultiValueDict_appendlist (MultiValueDict_appendlist d k v1) k v2) k \<and>
   MultiValueDict_get (MultiValueDict_appendlist (MultiValueDict_appendlist d k v1) k v2) k dflt
     = Some v2 \<and>
   MultiValueDict_getlist (MultiValueDict_appendlist (MultiValueDict_appendlist d k v1) k v2) k ldflt
     = MultiValueDict_getlist d k None @ [v1, v2] \<and>
   MultiValueDict_get d k dflt =
     (if MultiValueDict_getlist d k None = [] then dflt
      else Some (last (MultiValueDict_getlist d k None))) \<and>
   (MultiValueDict_contains d k \<longrightarrow>
      (\<exists>d'. MultiValueDict_delitem d k = Inr d' \<and> \<not> MultiValueDict_contains d' k \<and>
            MultiValueDict_getlist d' k None = []))"
proof -
  have a: "MultiValueDict_getlist d k None \<noteq> [] \<longrightarrow> MultiValueDict_contains d k"
    by (simp add: getlist_nonempty_contains)
  have b: "MultiValueDict_contains (MultiValueDict_appendlist (MultiValueDict_appendlist d k v1) k v2) k"
    by (simp add: contains_appendlist)
  have c: "MultiValueDict_get (MultiValueDict_appendlist (MultiValueDict_appendlist d k v1) k v2) k dflt
     = Some v2"
    by (rule get_appendlist_same)
  have e: "MultiValueDict_getlist (MultiValueDict_appendlist (MultiValueDict_appendlist d k v1) k v2) k ldflt
     = MultiValueDict_getlist d k None @ [v1, v2]"
    by (simp add: getlist_appendlist)
  have f: "MultiValueDict_contains d k \<longrightarrow>
      (\<exists>d'. MultiValueDict_delitem d k = Inr d' \<and> \<not> MultiValueDict_contains d' k \<and>
            MultiValueDict_getlist d' k None = [])"
    using delitem_present [of d k] by blast
  from a b c e f get_eq_last_getlist [of d k dflt] show ?thesis by blast
qed

theorem C6_append_get_getlist_delete_witness:
  "MultiValueDict_getlist (MultiValueDict_appendlist (MultiValueDict_appendlist [] ''k'' ''v1'') ''k'' ''v2'')
      ''k'' None = [''v1'', ''v2''] \<and>
   MultiValueDict_get (MultiValueDict_appendlist (MultiValueDict_appendlist [] ''k'' ''v1'') ''k'' ''v2'')
      ''k'' None = Some ''v2'' \<and>
   MultiValueDict_contains [(''k'', [''v1'', ''v2''])] ''k'' \<and>
   (\<exists>d'. MultiValueDict_delitem [(''k'', [''v1'', ''v2''])] ''k'' = Inr d' \<and>
         \<not> MultiValueDict_contains d' ''k'')"
proof -
  have p: "MultiValueDict_contains [(''k'', [''v1'', ''v2''])] ''k''"
    by (simp add: MultiValueDict_contains_def)
  have g: "MultiValueDict_getlist ([] :: (string, string) MultiValueDict) ''k'' None = []"
    by (simp add: MultiValueDict_getlist_def MultiValueDict_getlist_internal_def)
  from C6_append_get_getlist_delete [of "[]" "''k''" "''v1''" "''v2''" None None] g
  have q: "MultiValueDict_getlist (MultiValueDict_appendlist (MultiValueDict_appendlist [] ''k'' ''v1'') ''k'' ''v2'')
      ''k'' None = [''v1'', ''v2''] \<and>
   MultiValueDict_get (MultiValueDict_appendlist (MultiValueDict_appendlist [] ''k'' ''v1'') ''k'' ''v2'')
      ''k'' None = Some ''v2''"
    by simp
  from C6_append_get_getlist_delete [of "[(''k'', [''v1'', ''v2''])]" "''k''" "''v1''" "''v2''" None None] p
  have r: "\<exists>d'. MultiValueDict_delitem [(''k'', [''v1'', ''v2''])] ''k'' = Inr d' \<and>
         \<not> MultiValueDict_contains d' ''k''"
    by blast
  from p q r show ?thesis by blast
qed

section \<open>Properties of QueryDict\<close>

text \<open>
  C7. On a QueryDict whose \<open>mutable\<close> flag is false, each of \<open>__setitem__\<close>,
  \<open>__delitem__\<close>, \<open>setlist\<close>, \<open>setlistdefault\<close>, \<open>appendlist\<close>, \<open>pop\<close>, \<open>popitem\<close>,
  \<open>clear\<close> and \<open>setdefault\<close> raises the same \<open>AttributeError\<close>, whatever its arguments,
  and leaves the QueryDict as it was.
\<close>

theorem C7_immutable_mutators_fail:
  assumes "\<not> mutable q"
  shows "QueryDict_setitem q key val = (Inl (AttributeError ''This QueryDict instance is immutable''), q) \<and>
         QueryDict_delitem q key = (Inl (AttributeError ''This QueryDict instance is immutable''), q) \<and>
         QueryDict_setlist q key vlist = (Inl (AttributeError ''This QueryDict instance is immutable''), q) \<and>
         QueryDict_setlistdefault q key default_list = (Inl (AttributeError ''This QueryDict instance is immutable''), q) \<and>
         QueryDict_appendlist q key val = (Inl (AttributeError ''This QueryDict instance is immutable''), q) \<and>
         QueryDict_pop q key args = (Inl (AttributeError ''This QueryDict instance is immutable''), q) \<and>
         QueryDict_popitem q = (Inl (AttributeError ''This QueryDict instance is immutable''), q) \<and>
         QueryDict_clear q = (Inl (AttributeError ''This QueryDict instance is immutable''), q) \<and>
         QueryDict_setdefault q key val = (Inl (AttributeError ''This QueryDict instance is immutable''), q)"
proof -
  from assms have a: "QueryDict_assert_mutable q = Some (AttributeError ''This QueryDict instance is immutable'')"
    by (simp add: QueryDict_assert_mutable_def)
  show ?thesis
    by (simp add: a QueryDict_setitem_def QueryDict_delitem_def QueryDict_setlist_def
        QueryDict_setlistdefault_def QueryDict_appendlist_def QueryDict_pop_def
        QueryDict_popitem_def QueryDict_clear_def QueryDict_setdefault_def)
qed

theorem C7_immutable_mutators_fail_witness:
  "\<not> mutable \<lparr>dict = [(''a'', [Str ''1''])], mutable = False, encoding = ''utf-8''\<rparr> \<and>
   QueryDict_appendlist \<lparr>dict = [(''a'', [Str ''1''])], mutable = False, encoding = ''utf-8''\<rparr> ''a'' (Str ''2'')
     = (Inl (AttributeError ''This QueryDict instance is immutable''),
        \<lparr>dict = [(''a'', [Str ''1''])], mutable = False, encoding = ''utf-8''\<rparr>) \<and>
   QueryDict_clear \<lparr>dict = [(''a'', [Str ''1''])], mutable = False, encoding = ''utf-8''\<rparr>
     = (Inl (AttributeError ''This QueryDict instance is immutable''),
        \<lparr>dict = [(''a'', [Str ''1''])], mutable = False, encoding = ''utf-8''\<rparr>)"
proof -
  have h: "\<not> mutable \<lparr>dict = [(''a'', [Str ''1''])], mutable = False, encoding = ''utf-8''\<rparr>"
    by simp
  from C7_immutable_mutators_fail [OF h, of "''a''" "Str ''2''" "[]" None None] h
  show ?thesis by blast
qed

section \<open>Properties of the request line and of the host\<close>

lemma parse_request_line_raises:
  "parse_request_line urlparse request_line = Inl ValueError"
  by (simp add: parse_request_line_def)

lemma parse_request_header_fails:
  "\<exists>err. fst (HttpRequest_parse_request_header st cds mc urlparse stream r) = Inl err"
proof -
  obtain h e c s1 where hl: "header_loop (MAX_HEADER_SIZE st) [] stream = (h, e, c, s1)"
    by (cases "header_loop (MAX_HEADER_SIZE st) [] stream") auto
  show ?thesis
  proof (cases e)
    case None
    with hl show ?thesis
      by (simp add: HttpRequest_parse_request_header_def Let_def)
  next
    case (Some i)
    show ?thesis
    proof (cases "parse_request_headers (h @ CRLF)")
      case (Inl err)
      with hl Some show ?thesis
        by (simp add: HttpRequest_parse_request_header_def Let_def)
    next
      case (Inr p)
      with hl Some show ?thesis
        by (cases p) (simp add: HttpRequest_parse_request_header_def Let_def parse_request_line_raises)
    qed
  qed
qed

text \<open>
  C2. For every input string \<open>parse_request_line\<close> raises \<open>ValueError\<close>: its first
  statement unpacks the empty string into three targets, before the argument is
  looked at. Hence \<open>parse_request_header\<close> and \<open>parse\<close> end with an exception for every
  stream and every request.
\<close>

theorem C2_parse_request_line_always_raises:
  "parse_request_line urlparse request_line = Inl ValueError \<and>
   (\<exists>err. fst (HttpRequest_parse_request_header st cds mc urlparse stream r) = Inl err) \<and>
   (\<exists>err. fst (HttpRequest_parse st cds mc urlparse parse_file_upload stream r) = Inl err)"
proof -
  obtain err where e: "fst (HttpRequest_parse_request_header st cds mc urlparse stream r) = Inl err"
    using parse_request_header_fails by blast
  obtain res s' r' where p: "HttpRequest_parse_request_header st cds mc urlparse stream r = (res, s', r')"
    by (cases "HttpRequest_parse_request_header st cds mc urlparse stream r") auto
  with e have "res = Inl err" by simp
  with p have "fst (HttpRequest_parse st cds mc urlparse parse_file_upload stream r) = Inl err"
    by (simp add: HttpRequest_parse_def)
  with e show ?thesis
    by (simp add: parse_request_line_raises)
qed

theorem C2_parse_request_line_always_raises_witness:
  "parse_request_line (\<lambda>u. ('''', '''', u, '''', '''', '''')) ''GET / HTTP/1.1'' = Inl ValueError"
  using C2_parse_request_line_always_raises
    [of "\<lambda>u. ('''', '''', u, '''', '''', '''')" "''GET / HTTP/1.1''"]
  by blast

text \<open>
  C3 (the code at the failing input). The line \<open>GET /p HTTP/1.1\<close> has exactly three
  non-empty tokens separated by single spaces, and \<open>parse_request_line\<close> raises
  \<open>ValueError\<close> on it instead of returning the three tokens.
\<close>

theorem C3_three_tokens_raise_ValueError:
  "parse_request_line urlparse ''GET /p HTTP/1.1'' = Inl ValueError"
  by (simp add: parse_request_line_def)

lemma split_max_chars: "p \<in> set (split_max sep n s) \<Longrightarrow> set p \<subseteq> set s"
proof (induction sep n s arbitrary: p rule: split_max.induct)
  case (1 sep s)
  then show ?case by simp
next
  case (2 sep n)
  then show ?case by simp
next
  case (3 sep n x xs)
  show ?case
  proof (cases "x = sep")
    case True
    from 3(3) True have "p = [] \<or> p \<in> set (split_max sep n xs)" by simp
    with 3(1) [OF True] show ?thesis by auto
  next
    case False
    show ?thesis
    proof (cases "split_max sep (Suc n) xs")
      case Nil
      with False 3(3) show ?thesis by simp
    next
      case (Cons piece pieces)
      with False 3(3) have "p = x # piece \<or> p \<in> set pieces" by simp
      moreover have "set piece \<subseteq> set xs" using 3(2) [OF False, of piece] Cons by simp
      moreover have "\<And>q. q \<in> set pieces \<Longrightarrow> set q \<subseteq> set xs"
        using 3(2) [OF False] Cons by simp
      ultimately show ?thesis by auto
    qed
  qed
qed

lemma rsplit1_chars: "p \<in> set (rsplit1 sep s) \<Longrightarrow> set p \<subseteq> set s"
proof -
  assume "p \<in> set (rsplit1 sep s)"
  then obtain p' where p': "p' \<in> set (split_max sep 1 (rev s))" "p = rev p'"
    unfolding rsplit1_def by auto
  from p'(1) have "set p' \<subseteq> set (rev s)" by (rule split_max_chars)
  with p'(2) show ?thesis by simp
qed

lemma lower_char_idem: "lower_char (lower_char c) = lower_char c"
proof -
  define U where "U = ''ABCDEFGHIJKLMNOPQRSTUVWXYZ''"
  define L where "L = ''abcdefghijklmnopqrstuvwxyz''"
  have lc: "\<And>x. lower_char x = (case map_of (zip U L) x of Some l \<Rightarrow> l | None \<Rightarrow> x)"
    by (simp only: lower_char_def U_def L_def)
  have disj: "set U \<inter> set L = {}"
    unfolding U_def L_def by simp
  show ?thesis
  proof (cases "map_of (zip U L) c")
    case None
    then show ?thesis by (simp add: lc)
  next
    case (Some l)
    then have "l \<in> set L" by (meson map_of_SomeD set_zip_rightD)
    with disj have "l \<notin> set U" by blast
    then have "map_of (zip U L) l = None"
      by (meson map_of_SomeD set_zip_leftD not_Some_eq)
    with Some show ?thesis by (simp add: lc)
  qed
qed

lemma lower_idem: "lower (lower s) = lower s"
  by (simp add: lower_def lower_char_idem)

lemma lower_fixed_iff: "lower p = p \<longleftrightarrow> list_all (\<lambda>c. lower_char c = c) p"
  by (induction p) (auto simp: lower_def)

lemma split_domain_port_chars:
  "set (fst (split_domain_port h)) \<subseteq> set (lower h) \<and>
   set (snd (split_domain_port h)) \<subseteq> set (lower h)"
proof -
  define bits where "bits = rsplit1 CHR '':'' (lower h)"
  have c: "\<And>p. p \<in> set bits \<Longrightarrow> set p \<subseteq> set (lower h)"
    unfolding bits_def by (rule rsplit1_chars)
  have b: "\<And>d. set (butlast d) \<subseteq> set d" by (meson in_set_butlastD subsetI)
  define dp where "dp = (case bits of [d, p] \<Rightarrow> (d, p) | d # ds \<Rightarrow> (d, []) | [] \<Rightarrow> ([], []))"
  have dp: "set (fst dp) \<subseteq> set (lower h) \<and> set (snd dp) \<subseteq> set (lower h)"
    using c unfolding dp_def by (auto split: list.splits)
  have e: "split_domain_port h = ([], []) \<or> split_domain_port h = (lower h, []) \<or>
        split_domain_port h = (butlast (fst dp), snd dp) \<or> split_domain_port h = dp"
    unfolding split_domain_port_def Let_def dp_def bits_def case_prod_unfold
    by simp
  from dp b [of "fst dp"] have "set (butlast (fst dp)) \<subseteq> set (lower h)" by blast
  with e dp show ?thesis by auto
qed

lemma split_domain_port_lowercase:
  "lower (fst (split_domain_port h)) = fst (split_domain_port h) \<and>
   lower (snd (split_domain_port h)) = snd (split_domain_port h)"
proof -
  have "list_all (\<lambda>c. lower_char c = c) (lower h)"
    by (simp add: lower_def list_all_iff lower_char_idem)
  with split_domain_port_chars [of h] show ?thesis
    unfolding lower_fixed_iff list_all_iff by blast
qed

section \<open>Properties of header framing\<close>

lemma find_sub_Some:
  "find_sub sub s = Some i \<Longrightarrow> take (length sub) (drop i s) = sub \<and> i \<le> length s"
proof (induction s arbitrary: i)
  case Nil
  then show ?case by (simp split: if_splits)
next
  case (Cons x xs)
  show ?case
  proof (cases "take (length sub) (x # xs) = sub")
    case True
    with Cons.prems show ?thesis by simp
  next
    case False
    with Cons.prems obtain j where j: "find_sub sub xs = Some j" "i = Suc j" by auto
    with Cons.IH [of j] show ?thesis by simp
  qed
qed

lemma find_sub_present: "find_sub sub (a @ sub @ b) \<noteq> None"
proof (induction a)
  case Nil
  have t: "take (length sub) (sub @ b) = sub" by simp
  show ?case
  proof (cases "sub @ b")
    case Nil
    then show ?thesis by simp
  next
    case (Cons y ys)
    with t have "take (length sub) (y # ys) = sub" by simp
    with Cons show ?thesis by simp
  qed
next
  case (Cons x a)
  then show ?case by auto
qed

lemma header_loop_result:
  "header_loop n acc s = (h, e, c, s') \<Longrightarrow>
     (e = None \<longrightarrow> c = [] \<and> acc @ s = h @ s') \<and>
     (\<forall>i. e = Some i \<longrightarrow> find_sub CRLFCRLF c = Some i \<and> acc @ s = h @ drop i c @ s')"
proof (induction n acc s arbitrary: h e c s' rule: header_loop.induct)
  case (1 n acc s)
  note unf = header_loop.simps [of n acc s]
  show ?case
  proof (cases "take n s = []")
    case True
    with "1.prems" have "h = acc \<and> e = None \<and> c = [] \<and> s' = drop n s"
      by (simp add: unf LazyStream_read_def)
    moreover from True have "drop n s = s" by (cases n) auto
    ultimately show ?thesis by simp
  next
    case False
    show ?thesis
    proof (cases "find_sub CRLFCRLF (take n s)")
      case None
      with False "1.prems" have "header_loop n (acc @ take n s) (drop n s) = (h, e, c, s')"
        by (simp add: unf LazyStream_read_def)
      moreover have rd: "(take n s, drop n s) = LazyStream_read n s"
        by (simp add: LazyStream_read_def)
      ultimately show ?thesis
        using "1.IH" [OF rd False None] by simp
    next
      case (Some i)
      with False "1.prems" have "h = acc @ take i (take n s) \<and> e = Some i \<and> c = take n s \<and> s' = drop n s"
        by (auto simp: unf LazyStream_read_def)
      moreover have "take i (take n s) @ drop i (take n s) @ drop n s = s"
        by (metis append_assoc append_take_drop_id)
      ultimately show ?thesis using Some by simp
    qed
  qed
qed

lemma boundary_at:
  assumes "find_sub CRLFCRLF c = Some i"
  shows "drop i c = CRLFCRLF @ drop (i + 4) c"
proof -
  have "length CRLFCRLF = 4" by (simp add: CRLFCRLF_def)
  with find_sub_Some [OF assms] have "take 4 (drop i c) = CRLFCRLF"
    by metis
  then have "drop i c = CRLFCRLF @ drop 4 (drop i c)"
    by (metis append_take_drop_id)
  then show ?thesis by (simp add: add.commute)
qed

lemma frame_with_body:
  "header_loop (MAX_HEADER_SIZE example_settings) []
     (''GET / HTTP/1.1'' @ CRLF @ ''Host: a'' @ CRLFCRLF @ ''BODY'') =
   (''GET / HTTP/1.1'' @ CRLF @ ''Host: a'', Some 23,
    ''GET / HTTP/1.1'' @ CRLF @ ''Host: a'' @ CRLFCRLF @ ''BODY'', [])"
  by (simp add: example_settings_def header_loop.simps LazyStream_read_def CRLF_def CRLFCRLF_def)

lemma frame_without_boundary:
  "header_loop (MAX_HEADER_SIZE example_settings) [] (''GET / HTTP/1.1'' @ CRLF @ ''Host: a'') =
   (''GET / HTTP/1.1'' @ CRLF @ ''Host: a'', None, [], [])"
  by (simp add: example_settings_def header_loop.simps LazyStream_read_def CRLF_def CRLFCRLF_def)

text \<open>
  C4. Let the reading loop of \<open>parse_request_header\<close> end with the header \<open>h\<close>, the index
  \<open>e\<close>, the last chunk \<open>c\<close> and the source \<open>s1\<close>. If no boundary was found (\<open>e\<close> is
  \<open>None\<close>), the last read returned nothing, \<open>parse_request_header\<close> raises
  \<open>InvalidHttpRequest\<close> with status 400 and the request is as it was; a stream that
  holds no \<open>\r\n\r\n\<close> at all always ends so. Otherwise the boundary is at index \<open>i\<close> of
  the last chunk and the bytes of that chunk after it are pushed back in front of the
  source, in their order: the source then holds exactly the bytes that followed the
  boundary in the stream.
\<close>

theorem C4_header_framing:
  assumes "header_loop (MAX_HEADER_SIZE st) [] s = (h, e, c, s1)"
  shows "(e = None \<longrightarrow>
            c = [] \<and>
            HttpRequest_parse_request_header st cds mc urlparse s r =
              (Inl (InvalidHttpRequest ''Invalid HTTP request.'' (Some 400)), s1, r)) \<and>
         (find_sub CRLFCRLF s = None \<longrightarrow> e = None) \<and>
         (\<forall>i. e = Some i \<longrightarrow>
            find_sub CRLFCRLF c = Some i \<and>
            fst (snd (HttpRequest_parse_request_header st cds mc urlparse s r)) = drop (i + 4) c @ s1 \<and>
            s = h @ CRLFCRLF @ drop (i + 4) c @ s1)"
proof -
  note res = header_loop_result [OF assms]
  have a: "e = None \<longrightarrow>
            c = [] \<and>
            HttpRequest_parse_request_header st cds mc urlparse s r =
              (Inl (InvalidHttpRequest ''Invalid HTTP request.'' (Some 400)), s1, r)"
  proof
    assume n: "e = None"
    with res have "c = []" by simp
    moreover from assms n have "HttpRequest_parse_request_header st cds mc urlparse s r =
              (Inl (InvalidHttpRequest ''Invalid HTTP request.'' (Some 400)), s1, r)"
      by (simp add: HttpRequest_parse_request_header_def Let_def)
    ultimately show "c = [] \<and>
            HttpRequest_parse_request_header st cds mc urlparse s r =
              (Inl (InvalidHttpRequest ''Invalid HTTP request.'' (Some 400)), s1, r)"
      by simp
  qed
  have b: "\<forall>i. e = Some i \<longrightarrow>
            find_sub CRLFCRLF c = Some i \<and>
            fst (snd (HttpRequest_parse_request_header st cds mc urlparse s r)) = drop (i + 4) c @ s1 \<and>
            s = h @ CRLFCRLF @ drop (i + 4) c @ s1"
  proof (intro allI impI)
    fix i assume ei: "e = Some i"
    with res have f: "find_sub CRLFCRLF c = Some i" and sp: "s = h @ drop i c @ s1" by auto
    from sp boundary_at [OF f] have s: "s = h @ CRLFCRLF @ drop (i + 4) c @ s1" by simp
    have "fst (snd (HttpRequest_parse_request_header st cds mc urlparse s r)) = drop (i + 4) c @ s1"
      using assms ei
      by (simp add: HttpRequest_parse_request_header_def Let_def LazyStream_unget_def
          split: sum.splits prod.splits)
    with f s show "find_sub CRLFCRLF c = Some i \<and>
            fst (snd (HttpRequest_parse_request_header st cds mc urlparse s r)) = drop (i + 4) c @ s1 \<and>
            s = h @ CRLFCRLF @ drop (i + 4) c @ s1" by simp
  qed
  have c: "find_sub CRLFCRLF s = None \<longrightarrow> e = None"
  proof (cases e)
    case None
    then show ?thesis by simp
  next
    case (Some i)
    with b have "s = h @ CRLFCRLF @ drop (i + 4) c @ s1" by simp
    with find_sub_present [of CRLFCRLF h "drop (i + 4) c @ s1"] show ?thesis by auto
  qed
  from a b c show ?thesis by blast
qed

theorem C4_header_framing_witness:
  "fst (snd (HttpRequest_parse_request_header example_settings example_codecs example_MetaDict
         example_urlparse (''GET / HTTP/1.1'' @ CRLF @ ''Host: a'' @ CRLFCRLF @ ''BODY'')
         example_request)) = ''BODY'' \<and>
   HttpRequest_parse_request_header example_settings example_codecs example_MetaDict
         example_urlparse (''GET / HTTP/1.1'' @ CRLF @ ''Host: a'') example_request =
     (Inl (InvalidHttpRequest ''Invalid HTTP request.'' (Some 400)), [], example_request)"
proof -
  from C4_header_framing [OF frame_with_body, of example_codecs example_MetaDict example_urlparse example_request]
  have a: "fst (snd (HttpRequest_parse_request_header example_settings example_codecs example_MetaDict
         example_urlparse (''GET / HTTP/1.1'' @ CRLF @ ''Host: a'' @ CRLFCRLF @ ''BODY'')
         example_request)) = drop (23 + 4) (''GET / HTTP/1.1'' @ CRLF @ ''Host: a'' @ CRLFCRLF @ ''BODY'') @ []"
    by blast
  have d: "drop (23 + 4) (''GET / HTTP/1.1'' @ CRLF @ ''Host: a'' @ CRLFCRLF @ ''BODY'') @ [] = ''BODY''"
    by (simp add: CRLF_def CRLFCRLF_def)
  from C4_header_framing [OF frame_without_boundary, of example_codecs example_MetaDict example_urlparse example_request]
  have b: "HttpRequest_parse_request_header example_settings example_codecs example_MetaDict
         example_urlparse (''GET / HTTP/1.1'' @ CRLF @ ''Host: a'') example_request =
     (Inl (InvalidHttpRequest ''Invalid HTTP request.'' (Some 400)), [], example_request)"
    by blast
  from a d b show ?thesis by (simp only:) 
qed

section \<open>Properties of the population step\<close>

lemma split_domain_port_lower: "split_domain_port (lower h) = split_domain_port h"
  by (simp add: split_domain_port_def lower_idem)

lemma QueryDict_init_empty:
  "QueryDict_init st cds QNone m None =
     Inr \<lparr>dict = [], mutable = m, encoding = DEFAULT_CHARSET st\<rparr>"
  by (simp add: QueryDict_init_def limited_parse_qsl_def split_def parse_field_def
      split: option.splits)

lemma HttpRequest_init_example:
  "HttpRequest_init example_settings example_codecs = Inr example_request"
  by (simp add: HttpRequest_init_def QueryDict_init_empty example_request_def
      example_settings_def MultiValueDict_init_def)

lemma populate_success:
  assumes ok: "HttpRequest_populate st cds mc md hdrs r = (Inr (), r')"
  shows "\<exists>host0 hdrs2 hdrs3.
           request_host md hdrs = Inr (Item host0, hdrs2) \<and>
           MultiValueDict_delitem hdrs2 ''Content-Type'' = Inr hdrs3 \<and>
           host r' = fst (split_domain_port host0) \<and>
           port r' = assign_port (SCHEME md) (snd (split_domain_port host0)) \<and>
           content_type r' = MultiValueDict_get hdrs2 ''Content-Type'' None \<and>
           META r' (Info_REQ_HEADERS mc) = Some (MetaHeaders hdrs3)"
proof (cases "request_host md hdrs")
  case (Inl err)
  with ok show ?thesis by (simp add: HttpRequest_populate_def Let_def)
next
  case (Inr pr)
  obtain hi hdrs2 where pr: "pr = (hi, hdrs2)" by (cases pr)
  show ?thesis
  proof (cases hi)
    case EmptyList
    with ok Inr pr show ?thesis by (simp add: HttpRequest_populate_def Let_def)
  next
    case (Item host0)
    obtain h p where sp: "split_domain_port host0 = (h, p)" by (cases "split_domain_port host0")
    show ?thesis
    proof (cases "MultiValueDict_delitem hdrs2 ''Content-Type''")
      case (Inl err)
      with ok Inr pr Item sp show ?thesis by (simp add: HttpRequest_populate_def Let_def)
    next
      case del: (Inr hdrs3)
      define r1 where "r1 = r\<lparr>scheme := (if SCHEME md \<noteq> [] then lower (SCHEME md) else ''UNKNOWN''),
          host := h, port := assign_port (SCHEME md) p, request_method := Some (METHOD md),
          path := PATH md, protocol_info := PROTO_INFO md,
          content_type := MultiValueDict_get hdrs2 ''Content-Type'' None,
          META := (META r)(Info_QUERY_STRING mc \<mapsto> MetaStr (QUERY_STRING md))\<rparr>"
      show ?thesis
      proof (cases "META r1 (ReqLine_QUERY_STRING mc)")
        case None
        with ok Inr pr Item sp del show ?thesis
          by (simp add: HttpRequest_populate_def r1_def Let_def)
      next
        case (Some mv)
        show ?thesis
        proof (cases "request_GET st cds mv")
          case (Inl err)
          with ok Inr pr Item sp del Some show ?thesis
            by (simp add: HttpRequest_populate_def r1_def Let_def)
        next
          case g: (Inr g)
          with ok Inr pr Item sp del Some
          have "r' = r1\<lparr>GET := g, META := (META r1)(Info_REQ_HEADERS mc \<mapsto> MetaHeaders hdrs3)\<rparr>"
            by (simp add: HttpRequest_populate_def r1_def Let_def)
          then have "host r' = h \<and> port r' = assign_port (SCHEME md) p \<and>
              content_type r' = MultiValueDict_get hdrs2 ''Content-Type'' None \<and>
              META r' (Info_REQ_HEADERS mc) = Some (MetaHeaders hdrs3)"
            by (simp add: r1_def)
          with Inr pr Item sp del show ?thesis by simp
        qed
      qed
    qed
  qed
qed

lemma populate_without_content_type:
  assumes rh: "request_host md hdrs = Inr (Item host0, hdrs2)"
    and no: "\<not> MultiValueDict_contains hdrs2 ''Content-Type''"
  shows "fst (HttpRequest_populate st cds mc md hdrs r) = Inl KeyError \<and>
         content_type (snd (HttpRequest_populate st cds mc md hdrs r)) = None"
proof -
  obtain h p where sp: "split_domain_port host0 = (h, p)" by (cases "split_domain_port host0")
  from no have del: "MultiValueDict_delitem hdrs2 ''Content-Type'' = Inl KeyError"
    by (simp add: MultiValueDict_delitem_def)
  from no have get: "MultiValueDict_get hdrs2 ''Content-Type'' None = None"
    by (simp add: MultiValueDict_get_def MultiValueDict_getitem_def MultiValueDict_contains_def)
  from rh sp del get show ?thesis
    by (simp add: HttpRequest_populate_def Let_def)
qed

lemma populate_with_content_type:
  "HttpRequest_populate example_settings example_codecs example_MetaDict
     \<lparr>SCHEME = ''https'', DOMAIN = ''Example.com'', PATH = ''/p'', PARAMS = [], QUERY_STRING = [],
      FRAGMENT = [], METHOD = ''GET'', PROTO_INFO = ''HTTP/1.1''\<rparr>
     [(''Content-Type'', [''text/plain''])] example_request
   = (Inr (), example_request\<lparr>scheme := ''https'', host := ''example.com'', port := PortInt 443,
        request_method := Some ''GET'', path := ''/p'', protocol_info := ''HTTP/1.1'',
        content_type := Some ''text/plain'',
        META := (META example_request)(''QUERY_STRING'' \<mapsto> MetaStr [],
                  ''REQUEST_HEADERS'' \<mapsto> MetaHeaders []),
        GET := \<lparr>dict = [], mutable = True, encoding = ''utf-8''\<rparr>\<rparr>)"
  by (simp add: HttpRequest_populate_def request_host_def request_GET_def QueryDict_init_empty
      split_domain_port_def lower_def lower_char_def re_match_def host_validation_re_def rsplit1_def
      assign_port_def MultiValueDict_get_def MultiValueDict_getitem_def MultiValueDict_delitem_def
      MultiValueDict_contains_def example_MetaDict_def example_settings_def)

lemma populate_host_port:
  assumes rh: "request_host md hdrs = Inr (Item host0, hdrs2)"
  shows "host (snd (HttpRequest_populate st cds mc md hdrs r)) = fst (split_domain_port host0) \<and>
         port (snd (HttpRequest_populate st cds mc md hdrs r)) =
           assign_port (SCHEME md) (snd (split_domain_port host0))"
proof -
  obtain h p where sp: "split_domain_port host0 = (h, p)" by (cases "split_domain_port host0")
  show ?thesis
    by (simp add: HttpRequest_populate_def Let_def rh sp
        split: sum.split prod.split option.split)
qed

lemma request_host_domain:
  "DOMAIN md \<noteq> [] \<Longrightarrow> request_host md hdrs = Inr (Item (DOMAIN md), hdrs)"
  by (simp add: request_host_def)

lemma request_host_header:
  assumes "DOMAIN md = []" and "map_of hdrs ''Host'' = Some vlist" and "vlist \<noteq> []"
  shows "request_host md hdrs = Inr (Item (last vlist), AList.delete ''Host'' hdrs)"
  using assms
  by (simp add: request_host_def MultiValueDict_contains_def MultiValueDict_getitem_def
      MultiValueDict_delitem_def)

lemma populate_host_header_example:
  "request_host
     \<lparr>SCHEME = ''https'', DOMAIN = [], PATH = ''/p'', PARAMS = [], QUERY_STRING = [],
      FRAGMENT = [], METHOD = ''GET'', PROTO_INFO = ''HTTP/1.1''\<rparr>
     [(''Host'', [''Example.com''])] = Inr (Item ''Example.com'', [])"
  by (simp add: request_host_def MultiValueDict_contains_def MultiValueDict_getitem_def
      MultiValueDict_delitem_def)

lemma split_example_host: "split_domain_port ''Example.com'' = (''example.com'', [])"
  by (simp add: split_domain_port_def lower_def lower_char_def re_match_def
      host_validation_re_def rsplit1_def)

text \<open>
  C5. \<open>split_domain_port\<close> works on the lower-cased token: its result is that of the
  lower-cased token and is itself in lower case; a token whose lower-cased form does
  not match the grammar gives two empty strings; \<open>example.com:8443\<close> gives the host
  \<open>example.com\<close> and the port \<open>8443\<close>. The caller takes the token from the domain of
  the request target when there is one, else from the last \<open>Host\<close> header; whenever it
  has a token, and whether or not a later statement raises, it has assigned to the
  request the host of that token and, as port, the port of the token when that is not
  empty, else 443 for the scheme \<open>https\<close>, 80 for \<open>http\<close> and the number 65536 for any
  other scheme.
\<close>

theorem C5_split_domain_port_default_port:
  "split_domain_port h = split_domain_port (lower h) \<and>
   lower (fst (split_domain_port h)) = fst (split_domain_port h) \<and>
   lower (snd (split_domain_port h)) = snd (split_domain_port h) \<and>
   (\<not> re_match host_validation_re (lower h) \<longrightarrow> split_domain_port h = ([], [])) \<and>
   split_domain_port ''example.com:8443'' = (''example.com'', ''8443'') \<and>
   (DOMAIN md \<noteq> [] \<longrightarrow> request_host md hdrs = Inr (Item (DOMAIN md), hdrs)) \<and>
   (DOMAIN md = [] \<and> map_of hdrs ''Host'' = Some vlist \<and> vlist \<noteq> [] \<longrightarrow>
      request_host md hdrs = Inr (Item (last vlist), AList.delete ''Host'' hdrs)) \<and>
   (request_host md hdrs = Inr (Item host0, hdrs2) \<longrightarrow>
      host (snd (HttpRequest_populate st cds mc md hdrs r)) = fst (split_domain_port host0) \<and>
      port (snd (HttpRequest_populate st cds mc md hdrs r)) =
        (if snd (split_domain_port host0) \<noteq> [] then PortStr (snd (split_domain_port host0))
         else if lower (SCHEME md) = ''https'' then PortInt 443
         else if lower (SCHEME md) = ''http'' then PortInt 80
         else PortInt 65536))"
proof -
  have a: "split_domain_port h = split_domain_port (lower h)"
    by (simp add: split_domain_port_lower)
  have b: "\<not> re_match host_validation_re (lower h) \<longrightarrow> split_domain_port h = ([], [])"
    by (simp add: split_domain_port_def)
  have c: "split_domain_port ''example.com:8443'' = (''example.com'', ''8443'')"
    by (simp add: split_domain_port_def lower_def lower_char_def re_match_def
        host_validation_re_def rsplit1_def)
  have d: "DOMAIN md \<noteq> [] \<longrightarrow> request_host md hdrs = Inr (Item (DOMAIN md), hdrs)"
    by (simp add: request_host_domain)
  have e: "DOMAIN md = [] \<and> map_of hdrs ''Host'' = Some vlist \<and> vlist \<noteq> [] \<longrightarrow>
      request_host md hdrs = Inr (Item (last vlist), AList.delete ''Host'' hdrs)"
    using request_host_header [of md hdrs vlist] by blast
  have f: "request_host md hdrs = Inr (Item host0, hdrs2) \<longrightarrow>
      host (snd (HttpRequest_populate st cds mc md hdrs r)) = fst (split_domain_port host0) \<and>
      port (snd (HttpRequest_populate st cds mc md hdrs r)) =
        (if snd (split_domain_port host0) \<noteq> [] then PortStr (snd (split_domain_port host0))
         else if lower (SCHEME md) = ''https'' then PortInt 443
         else if lower (SCHEME md) = ''http'' then PortInt 80
         else PortInt 65536)"
  proof
    assume rh: "request_host md hdrs = Inr (Item host0, hdrs2)"
    have "assign_port (SCHEME md) (snd (split_domain_port host0)) =
        (if snd (split_domain_port host0) \<noteq> [] then PortStr (snd (split_domain_port host0))
         else if lower (SCHEME md) = ''https'' then PortInt 443
         else if lower (SCHEME md) = ''http'' then PortInt 80
         else PortInt 65536)"
      by (simp add: assign_port_def)
    with populate_host_port [OF rh, of st cds mc r]
    show "host (snd (HttpRequest_populate st cds mc md hdrs r)) = fst (split_domain_port host0) \<and>
      port (snd (HttpRequest_populate st cds mc md hdrs r)) =
        (if snd (split_domain_port host0) \<noteq> [] then PortStr (snd (split_domain_port host0))
         else if lower (SCHEME md) = ''https'' then PortInt 443
         else if lower (SCHEME md) = ''http'' then PortInt 80
         else PortInt 65536)"
      by simp
  qed
  from a b c d e f split_domain_port_lowercase [of h] show ?thesis by blast
qed

theorem C5_split_domain_port_default_port_witness:
  "split_domain_port ''not a host'' = ([], []) \<and>
   host (snd (HttpRequest_populate example_settings example_codecs example_MetaDict
     \<lparr>SCHEME = ''https'', DOMAIN = [], PATH = ''/p'', PARAMS = [], QUERY_STRING = [],
      FRAGMENT = [], METHOD = ''GET'', PROTO_INFO = ''HTTP/1.1''\<rparr>
     [(''Host'', [''Example.com''])] example_request)) = ''example.com'' \<and>
   port (snd (HttpRequest_populate example_settings example_codecs example_MetaDict
     \<lparr>SCHEME = ''https'', DOMAIN = [], PATH = ''/p'', PARAMS = [], QUERY_STRING = [],
      FRAGMENT = [], METHOD = ''GET'', PROTO_INFO = ''HTTP/1.1''\<rparr>
     [(''Host'', [''Example.com''])] example_request)) = PortInt 443"
proof -
  have nm: "\<not> re_match host_validation_re (lower ''not a host'')"
    by (simp add: lower_def lower_char_def re_match_def host_validation_re_def)
  note t = C5_split_domain_port_default_port [of "''not a host''"
      "\<lparr>SCHEME = ''https'', DOMAIN = [], PATH = ''/p'', PARAMS = [], QUERY_STRING = [],
      FRAGMENT = [], METHOD = ''GET'', PROTO_INFO = ''HTTP/1.1''\<rparr>"
      "[(''Host'', [''Example.com''])]" "[''Example.com'']" "''Example.com''" "[]"
      example_settings example_codecs example_MetaDict example_request]
  from t nm have a: "split_domain_port ''not a host'' = ([], [])" by blast
  from t populate_host_header_example
  have b: "host (snd (HttpRequest_populate example_settings example_codecs example_MetaDict
     \<lparr>SCHEME = ''https'', DOMAIN = [], PATH = ''/p'', PARAMS = [], QUERY_STRING = [],
      FRAGMENT = [], METHOD = ''GET'', PROTO_INFO = ''HTTP/1.1''\<rparr>
     [(''Host'', [''Example.com''])] example_request)) = fst (split_domain_port ''Example.com'') \<and>
   port (snd (HttpRequest_populate example_settings example_codecs example_MetaDict
     \<lparr>SCHEME = ''https'', DOMAIN = [], PATH = ''/p'', PARAMS = [], QUERY_STRING = [],
      FRAGMENT = [], METHOD = ''GET'', PROTO_INFO = ''HTTP/1.1''\<rparr>
     [(''Host'', [''Example.com''])] example_request)) =
        (if snd (split_domain_port ''Example.com'') \<noteq> [] then PortStr (snd (split_domain_port ''Example.com''))
         else if lower (SCHEME \<lparr>SCHEME = ''https'', DOMAIN = [], PATH = ''/p'', PARAMS = [], QUERY_STRING = [],
      FRAGMENT = [], METHOD = ''GET'', PROTO_INFO = ''HTTP/1.1''\<rparr>) = ''https'' then PortInt 443
         else if lower (SCHEME \<lparr>SCHEME = ''https'', DOMAIN = [], PATH = ''/p'', PARAMS = [], QUERY_STRING = [],
      FRAGMENT = [], METHOD = ''GET'', PROTO_INFO = ''HTTP/1.1''\<rparr>) = ''http'' then PortInt 80
         else PortInt 65536)"
    by blast
  have l: "lower ''https'' = ''https''" by (simp add: lower_def lower_char_def)
  from b have c: "host (snd (HttpRequest_populate example_settings example_codecs example_MetaDict
     \<lparr>SCHEME = ''https'', DOMAIN = [], PATH = ''/p'', PARAMS = [], QUERY_STRING = [],
      FRAGMENT = [], METHOD = ''GET'', PROTO_INFO = ''HTTP/1.1''\<rparr>
     [(''Host'', [''Example.com''])] example_request)) = ''example.com'' \<and>
   port (snd (HttpRequest_populate example_settings example_codecs example_MetaDict
     \<lparr>SCHEME = ''https'', DOMAIN = [], PATH = ''/p'', PARAMS = [], QUERY_STRING = [],
      FRAGMENT = [], METHOD = ''GET'', PROTO_INFO = ''HTTP/1.1''\<rparr>
     [(''Host'', [''Example.com''])] example_request)) = PortInt 443"
    by (simp add: split_example_host l)
  from a c show ?thesis by blast
qed

section \<open>The end-to-end example and the Content-Type entry\<close>

lemma parse_request_header_reaches_line:
  assumes "header_loop (MAX_HEADER_SIZE st) [] s = (h, Some i, c, s1)"
    and "parse_request_headers (h @ CRLF) = Inr (line, hdrs)"
  shows "fst (HttpRequest_parse_request_header st cds mc urlparse s r) = Inl ValueError"
  using assms
  by (simp add: HttpRequest_parse_request_header_def Let_def parse_request_line_raises)

lemma frame_example:
  "header_loop (MAX_HEADER_SIZE example_settings) []
     (''GET /p?q=1&q=2 HTTP/1.1'' @ CRLF @ ''Host: example.com'' @ CRLFCRLF) =
     (''GET /p?q=1&q=2 HTTP/1.1'' @ CRLF @ ''Host: example.com'', Some 42,
      ''GET /p?q=1&q=2 HTTP/1.1'' @ CRLF @ ''Host: example.com'' @ CRLFCRLF, [])"
  by (simp add: example_settings_def header_loop.simps LazyStream_read_def CRLF_def CRLFCRLF_def)

lemma headers_example:
  "parse_request_headers ((''GET /p?q=1&q=2 HTTP/1.1'' @ CRLF @ ''Host: example.com'') @ CRLF) =
     Inr (''GET /p?q=1&q=2 HTTP/1.1'', [(''Host'', [''example.com''])])"
  by (simp add: parse_request_headers_def headers_loop.simps find_from_def CRLF_def
      encode_ascii_def strip_def is_space_def MultiValueDict_init_def)

lemma frame_plain:
  "header_loop (MAX_HEADER_SIZE example_settings) []
     (''GET / HTTP/1.1'' @ CRLF @ ''Host: example.com'' @ CRLFCRLF) =
     (''GET / HTTP/1.1'' @ CRLF @ ''Host: example.com'', Some 33,
      ''GET / HTTP/1.1'' @ CRLF @ ''Host: example.com'' @ CRLFCRLF, [])"
  by (simp add: example_settings_def header_loop.simps LazyStream_read_def CRLF_def CRLFCRLF_def)

lemma headers_plain:
  "parse_request_headers ((''GET / HTTP/1.1'' @ CRLF @ ''Host: example.com'') @ CRLF) =
     Inr (''GET / HTTP/1.1'', [(''Host'', [''example.com''])])"
  by (simp add: parse_request_headers_def headers_loop.simps find_from_def CRLF_def
      encode_ascii_def strip_def is_space_def MultiValueDict_init_def)

lemma query_example:
  "QueryDict_init example_settings example_codecs (QText ''q=1&q=2'') False None
     = Inr \<lparr>dict = [(''q'', [Str ''1'', Str ''2''])], mutable = False, encoding = ''utf-8''\<rparr>"
  by (simp add: example_settings_def example_codecs_def QueryDict_init_def limited_parse_qsl_def
      split_def parse_field_def plus_to_space_def
      QueryDict_appendlist_def QueryDict_assert_mutable_def bytes_to_text_def
      QueryDict_setlistdefault_def QueryDict_setlist_def MultiValueDict_contains_def
      MultiValueDict_setlist_def MultiValueDict_getlist_internal_def)

lemma populate_example:
  "snd (HttpRequest_populate example_settings example_codecs example_MetaDict
     \<lparr>SCHEME = [], DOMAIN = [], PATH = ''/p'', PARAMS = [], QUERY_STRING = ''q=1&q=2'',
      FRAGMENT = [], METHOD = ''GET'', PROTO_INFO = ''HTTP/1.1''\<rparr>
     [(''Host'', [''example.com''])] example_request)
   = example_request\<lparr>scheme := ''UNKNOWN'', host := ''example.com'', port := PortInt 65536,
        request_method := Some ''GET'', path := ''/p'', protocol_info := ''HTTP/1.1'',
        content_type := None\<rparr>"
  by (simp add: HttpRequest_populate_def request_host_def split_domain_port_def lower_def
      lower_char_def re_match_def host_validation_re_def rsplit1_def assign_port_def
      MultiValueDict_get_def MultiValueDict_getitem_def MultiValueDict_delitem_def
      MultiValueDict_contains_def)

text \<open>
  C1 (as stated, refuted). On the stream of the claim \<open>parse_request_header\<close> does not
  succeed: it raises \<open>ValueError\<close>.
\<close>

theorem C1_example_raises:
  "fst (HttpRequest_parse_request_header example_settings example_codecs example_MetaDict
          example_urlparse
          (''GET /p?q=1&q=2 HTTP/1.1'' @ CRLF @ ''Host: example.com'' @ CRLFCRLF) example_request)
     = Inl ValueError"
  by (rule parse_request_header_reaches_line [OF frame_example headers_example])

text \<open>
  C1 (amended). For the stream \<open>GET /p?q=1&q=2 HTTP/1.1\r\nHost: example.com\r\n\r\n\<close> the
  reading loop finds the boundary and \<open>parse_request_headers\<close> yields the request line
  \<open>GET /p?q=1&q=2 HTTP/1.1\<close> and the header map with \<open>Host: example.com\<close>. With the
  request-line dictionary of that line (method \<open>GET\<close>, path \<open>/p\<close>, query string
  \<open>q=1&q=2\<close>, no scheme and no domain) the population step assigns the method \<open>GET\<close>,
  the host \<open>example.com\<close>, the path \<open>/p\<close> and, the target having no scheme, the port
  65536; and the QueryDict of \<open>q=1&q=2\<close> has \<open>getlist('q') = ['1', '2']\<close> and
  \<open>get('q') = '2'\<close>.
\<close>

theorem C1_example_components:
  "header_loop (MAX_HEADER_SIZE example_settings) []
     (''GET /p?q=1&q=2 HTTP/1.1'' @ CRLF @ ''Host: example.com'' @ CRLFCRLF) =
     (''GET /p?q=1&q=2 HTTP/1.1'' @ CRLF @ ''Host: example.com'', Some 42,
      ''GET /p?q=1&q=2 HTTP/1.1'' @ CRLF @ ''Host: example.com'' @ CRLFCRLF, []) \<and>
   parse_request_headers ((''GET /p?q=1&q=2 HTTP/1.1'' @ CRLF @ ''Host: example.com'') @ CRLF) =
     Inr (''GET /p?q=1&q=2 HTTP/1.1'', [(''Host'', [''example.com''])]) \<and>
   request_method (snd (HttpRequest_populate example_settings example_codecs example_MetaDict
     \<lparr>SCHEME = [], DOMAIN = [], PATH = ''/p'', PARAMS = [], QUERY_STRING = ''q=1&q=2'',
      FRAGMENT = [], METHOD = ''GET'', PROTO_INFO = ''HTTP/1.1''\<rparr>
     [(''Host'', [''example.com''])] example_request)) = Some ''GET'' \<and>
   host (snd (HttpRequest_populate example_settings example_codecs example_MetaDict
     \<lparr>SCHEME = [], DOMAIN = [], PATH = ''/p'', PARAMS = [], QUERY_STRING = ''q=1&q=2'',
      FRAGMENT = [], METHOD = ''GET'', PROTO_INFO = ''HTTP/1.1''\<rparr>
     [(''Host'', [''example.com''])] example_request)) = ''example.com'' \<and>
   port (snd (HttpRequest_populate example_settings example_codecs example_MetaDict
     \<lparr>SCHEME = [], DOMAIN = [], PATH = ''/p'', PARAMS = [], QUERY_STRING = ''q=1&q=2'',
      FRAGMENT = [], METHOD = ''GET'', PROTO_INFO = ''HTTP/1.1''\<rparr>
     [(''Host'', [''example.com''])] example_request)) = PortInt 65536 \<and>
   path (snd (HttpRequest_populate example_settings example_codecs example_MetaDict
     \<lparr>SCHEME = [], DOMAIN = [], PATH = ''/p'', PARAMS = [], QUERY_STRING = ''q=1&q=2'',
      FRAGMENT = [], METHOD = ''GET'', PROTO_INFO = ''HTTP/1.1''\<rparr>
     [(''Host'', [''example.com''])] example_request)) = ''/p'' \<and>
   (\<exists>g. QueryDict_init example_settings example_codecs (QText ''q=1&q=2'') False None = Inr g \<and>
        MultiValueDict_getlist (dict g) ''q'' None = [Str ''1'', Str ''2''] \<and>
        MultiValueDict_get (dict g) ''q'' None = Some (Str ''2''))"
proof -
  have q: "\<exists>g. QueryDict_init example_settings example_codecs (QText ''q=1&q=2'') False None = Inr g \<and>
        MultiValueDict_getlist (dict g) ''q'' None = [Str ''1'', Str ''2''] \<and>
        MultiValueDict_get (dict g) ''q'' None = Some (Str ''2'')"
    by (simp add: query_example MultiValueDict_getlist_def MultiValueDict_getlist_internal_def
        MultiValueDict_get_def MultiValueDict_getitem_def)
  show ?thesis
    by (simp only: frame_example headers_example populate_example q) simp
qed

text \<open>
  C9 (the code at the failing input). The stream
  \<open>GET / HTTP/1.1\r\nHost: example.com\r\n\r\n\<close> is a well-formed request without a
  Content-Type header. \<open>parse_request_header\<close> does not end with the missing-key error
  of \<open>del request_headers['Content-Type']\<close> on it: it ends with the \<open>ValueError\<close> of
  \<open>parse_request_line\<close>, raised before the header map is used.
\<close>

theorem C9_error_is_not_KeyError:
  "fst (HttpRequest_parse_request_header example_settings example_codecs example_MetaDict
          example_urlparse
          (''GET / HTTP/1.1'' @ CRLF @ ''Host: example.com'' @ CRLFCRLF) example_request)
     = Inl ValueError \<and>
   fst (HttpRequest_parse_request_header example_settings example_codecs example_MetaDict
          example_urlparse
          (''GET / HTTP/1.1'' @ CRLF @ ''Host: example.com'' @ CRLFCRLF) example_request)
     \<noteq> Inl KeyError"
proof -
  note e = parse_request_header_reaches_line [OF frame_plain headers_plain,
      of example_codecs example_MetaDict example_urlparse example_request]
  have "(Inl ValueError :: py_error + unit) \<noteq> Inl KeyError" by simp
  with e show ?thesis by (simp only:) simp
qed

section \<open>Properties of the body property\<close>

lemma populate_keeps_read_started:
  "read_started_attr (snd (HttpRequest_populate st cds mc md hdrs r)) = read_started_attr r \<and>
   body_attr (snd (HttpRequest_populate st cds mc md hdrs r)) = body_attr r"
  by (simp add: HttpRequest_populate_def Let_def
      split: sum.split prod.split item.split option.split)

lemma parse_request_header_keeps_read_started:
  "read_started_attr (snd (snd (HttpRequest_parse_request_header st cds mc urlparse s r)))
     = read_started_attr r \<and>
   body_attr (snd (snd (HttpRequest_parse_request_header st cds mc urlparse s r))) = body_attr r"
proof -
  have "\<And>md hdrs. snd (case HttpRequest_populate st cds mc md hdrs r of (res, r') \<Rightarrow> (res, (x :: LazyStream), r'))
      = (x, snd (HttpRequest_populate st cds mc md hdrs r))" for x
    by (simp add: case_prod_unfold)
  then show ?thesis
    using populate_keeps_read_started [of st cds mc _ _ r]
    by (simp add: HttpRequest_parse_request_header_def Let_def
        split: sum.split prod.split option.split)
qed

lemma body_raw_post_data_iff:
  "fst (HttpRequest_body st r) = Inl RawPostDataException \<longleftrightarrow>
     read_started_attr r = Some True \<and> body_attr r = None"
proof (cases "body_attr r")
  case (Some b)
  then show ?thesis by (simp add: HttpRequest_body_def)
next
  case None
  show ?thesis
  proof (cases "read_started_attr r")
    case n: None
    with None show ?thesis by (simp add: HttpRequest_body_def)
  next
    case (Some started)
    show ?thesis
    proof (cases started)
      case True
      with None Some show ?thesis by (simp add: HttpRequest_body_def)
    next
      case False
      have rd: "fst (HttpRequest_read r None) \<noteq> Inl RawPostDataException"
        by (simp add: HttpRequest_read_def Let_def split: option.split py_stream.split)
      obtain res r2 where q: "HttpRequest_read r None = (res, r2)"
        by (cases "HttpRequest_read r None")
      with rd have res: "res \<noteq> Inl RawPostDataException" by simp
      have ce: "content_length_exceeds st r \<noteq> Inl RawPostDataException"
        by (auto simp: content_length_exceeds_def py_int_def Let_def
            split: option.splits meta_value.splits sum.splits if_splits)
      from None Some False q res ce show ?thesis
        by (cases res; cases "content_length_exceeds st r")
           (auto simp: HttpRequest_body_def split: bool.splits)
    qed
  qed
qed

text \<open>
  C10. The constructor leaves \<open>_read_started\<close> and \<open>_body\<close> unset; while both are unset
  the \<open>body\<close> property raises \<open>AttributeError\<close> and changes nothing;
  \<open>parse_request_header\<close> keeps both attributes as they are, and \<open>read\<close> and \<open>readline\<close>
  set \<open>_read_started\<close> to true. \<open>body\<close> raises the body-already-consumed error
  (\<open>RawPostDataException\<close>) exactly when \<open>_read_started\<close> is set to true and \<open>_body\<close> is
  not set.
\<close>

theorem C10_body_before_read_raises_AttributeError:
  "(HttpRequest_init st cds = Inr r0 \<longrightarrow> read_started_attr r0 = None \<and> body_attr r0 = None) \<and>
   (read_started_attr r = None \<and> body_attr r = None \<longrightarrow>
      HttpRequest_body st r = (Inl (AttributeError ''_read_started''), r)) \<and>
   read_started_attr (snd (snd (HttpRequest_parse_request_header st cds mc urlparse s r)))
     = read_started_attr r \<and>
   body_attr (snd (snd (HttpRequest_parse_request_header st cds mc urlparse s r))) = body_attr r \<and>
   read_started_attr (snd (HttpRequest_read r size_arg)) = Some True \<and>
   read_started_attr (snd (HttpRequest_readline r)) = Some True \<and>
   (fst (HttpRequest_body st r) = Inl RawPostDataException \<longleftrightarrow>
      read_started_attr r = Some True \<and> body_attr r = None)"
proof -
  have a: "HttpRequest_init st cds = Inr r0 \<longrightarrow> read_started_attr r0 = None \<and> body_attr r0 = None"
    by (auto simp: HttpRequest_init_def QueryDict_init_empty)
  have b: "read_started_attr r = None \<and> body_attr r = None \<longrightarrow>
      HttpRequest_body st r = (Inl (AttributeError ''_read_started''), r)"
    by (simp add: HttpRequest_body_def)
  have c: "read_started_attr (snd (HttpRequest_read r size_arg)) = Some True"
    by (simp add: HttpRequest_read_def Let_def split: option.split py_stream.split)
  have d: "read_started_attr (snd (HttpRequest_readline r)) = Some True"
    by (simp add: HttpRequest_readline_def Let_def split: option.split py_stream.split list.split)
  from a b c d parse_request_header_keeps_read_started [of st cds mc urlparse s r]
    body_raw_post_data_iff [of st r]
  show ?thesis by blast
qed

theorem C10_body_before_read_raises_AttributeError_witness:
  "HttpRequest_body example_settings example_request =
     (Inl (AttributeError ''_read_started''), example_request) \<and>
   fst (HttpRequest_body example_settings (example_request\<lparr>read_started_attr := Some True\<rparr>)) =
     Inl RawPostDataException"
proof -
  have h: "read_started_attr example_request = None \<and> body_attr example_request = None"
    by (simp add: example_request_def)
  have k: "read_started_attr (example_request\<lparr>read_started_attr := Some True\<rparr>) = Some True \<and>
           body_attr (example_request\<lparr>read_started_attr := Some True\<rparr>) = None"
    by (simp add: example_request_def)
  from C10_body_before_read_raises_AttributeError [of example_settings example_codecs example_request
      example_request example_MetaDict example_urlparse "[]" None] h
  have a: "HttpRequest_body example_settings example_request =
     (Inl (AttributeError ''_read_started''), example_request)"
    by blast
  from C10_body_before_read_raises_AttributeError [of example_settings example_codecs example_request
      "example_request\<lparr>read_started_attr := Some True\<rparr>" example_MetaDict example_urlparse "[]" None] k
  have b: "fst (HttpRequest_body example_settings (example_request\<lparr>read_started_attr := Some True\<rparr>)) =
     Inl RawPostDataException"
    by blast
  from a b show ?thesis by blast
qed

section \<open>The round trip through urlencode\<close>
























































end
